theory Spec2Isabelle
  imports Complex_Main "HOL-Library.Word"
begin

section \<open>VoiceScan-AI: the capture session of App.tsx and the remote analysis request\<close>

text \<open>
  Strings are byte lists in UTF-8: a character of the source outside ASCII is written as
  its bytes. JavaScript numbers are only copied by the code modelled here, never computed
  with, and are modelled as reals.
\<close>

subsection \<open>Values shared by both source files\<close>

type_synonym byte = "8 word"

datatype error = Error string

text \<open>A \<open>Blob\<close>: its MIME type and its bytes.\<close>

record Blob =
  blob_type :: string
  blob_bytes :: "byte list"

text \<open>
  JavaScript truthiness of a value of type \<open>string | null | undefined\<close>: \<open>None\<close> stands
  for \<open>null\<close> and \<open>undefined\<close>, and the empty string is falsy too.
\<close>

definition truthy :: "string option \<Rightarrow> bool" where
  "truthy v = (case v of None \<Rightarrow> False | Some s \<Rightarrow> s \<noteq> [])"

text \<open>\<open>v || undefined\<close>: the value itself when it is truthy.\<close>

definition orUndefined :: "string option \<Rightarrow> string option" where
  "orUndefined v = (if truthy v then v else None)"

subsection \<open>The remote analysis request (geminiService)\<close>

definition SYSTEM_PROMPT :: string where
  "SYSTEM_PROMPT =
   [CHR 0x0A] @ ''Voc'' @ [CHR 0xC3, CHR 0xAA] @ '' '' @
   [CHR 0xC3, CHR 0xA9] @
   '' um especialista em fonoaudiologia, engenharia de '' @
   [CHR 0xC3, CHR 0xA1] @ ''udio e an'' @ [CHR 0xC3, CHR 0xA1] @
   ''lise espectral. '' @ [CHR 0x0A] @ ''Sua tarefa '' @
   [CHR 0xC3, CHR 0xA9] @ '' analisar o arquivo de '' @
   [CHR 0xC3, CHR 0xA1] @
   ''udio fornecido contendo fala humana e, se dispon'' @
   [CHR 0xC3, CHR 0xAD] @ ''vel, a imagem do seu espectrograma.'' @
   [CHR 0x0A] @ ''Forne'' @ [CHR 0xC3, CHR 0xA7] @ ''a uma an'' @
   [CHR 0xC3, CHR 0xA1] @
   ''lise concisa, estruturada e profissional cobrindo os seguint'' @
   ''es pontos:'' @ [CHR 0x0A, CHR 0x0A] @ ''1.  '' @ [CHR 0x2A, CHR 0x2A] @
   ''Caracter'' @ [CHR 0xC3, CHR 0xAD] @ ''sticas Vocais'' @
   [CHR 0x2A, CHR 0x2A] @
   '': Descreva o timbre (ex: rouco, aveludado, estridente, anasa'' @
   ''lado, soproso).'' @ [CHR 0x0A] @ ''2.  '' @ [CHR 0x2A, CHR 0x2A] @
   ''Tonalidade e Pitch'' @ [CHR 0x2A, CHR 0x2A] @
   '': Classifique a voz (Grave, M'' @ [CHR 0xC3, CHR 0xA9] @
   ''dio, Agudo) e estime a estabilidade.'' @ [CHR 0x0A] @ ''3.  '' @
   [CHR 0x2A, CHR 0x2A] @ ''Din'' @ [CHR 0xC3, CHR 0xA2] @
   ''mica e Intensidade'' @ [CHR 0x2A, CHR 0x2A] @
   '': A voz varia bem o volume ou '' @ [CHR 0xC3, CHR 0xA9] @ '' mon'' @
   [CHR 0xC3, CHR 0xB3] @ ''tona?'' @ [CHR 0x0A] @ ''4.  '' @
   [CHR 0x2A, CHR 0x2A] @ ''Emo'' @
   [CHR 0xC3, CHR 0xA7, CHR 0xC3, CHR 0xA3] @ ''o/Inten'' @
   [CHR 0xC3, CHR 0xA7, CHR 0xC3, CHR 0xA3] @ ''o'' @ [CHR 0x2A, CHR 0x2A] @
   '': Qual a emo'' @ [CHR 0xC3, CHR 0xA7, CHR 0xC3, CHR 0xA3] @
   ''o transmitida (calma, ansiosa, autorit'' @ [CHR 0xC3, CHR 0xA1] @
   ''ria, hesitante)?'' @ [CHR 0x0A] @ ''5.  '' @ [CHR 0x2A, CHR 0x2A] @
   ''An'' @ [CHR 0xC3, CHR 0xA1] @ ''lise do Espectrograma'' @
   [CHR 0x2A, CHR 0x2A] @ '': Analise visualmente o espectrograma.'' @
   [CHR 0x0A] @ ''    - '' @ [CHR 0x2A, CHR 0x2A] @ ''Harm'' @
   [CHR 0xC3, CHR 0xB4] @ ''nicos'' @ [CHR 0x2A, CHR 0x2A] @
   '': Linhas horizontais n'' @ [CHR 0xC3, CHR 0xAD] @
   ''tidas e paralelas indicam boa periodicidade e voz limpa?'' @
   [CHR 0x0A] @ ''    - '' @ [CHR 0x2A, CHR 0x2A] @ ''Ru'' @
   [CHR 0xC3, CHR 0xAD] @ ''do'' @ [CHR 0x2A, CHR 0x2A] @ '': Presen'' @
   [CHR 0xC3, CHR 0xA7] @ ''a de '' @ [CHR 0x22] @ ''borr'' @
   [CHR 0xC3, CHR 0xB5] @ ''es'' @ [CHR 0x22] @ '' ou est'' @
   [CHR 0xC3, CHR 0xA1] @ ''tica entre os harm'' @ [CHR 0xC3, CHR 0xB4] @
   ''nicos (ind'' @ [CHR 0xC3, CHR 0xAD] @ ''cio de soprosidade ou ru'' @
   [CHR 0xC3, CHR 0xAD] @ ''do de fundo)?'' @ [CHR 0x0A] @ ''    - '' @
   [CHR 0x2A, CHR 0x2A] @ ''Estabilidade'' @ [CHR 0x2A, CHR 0x2A] @
   '': As linhas s'' @ [CHR 0xC3, CHR 0xA3] @ ''o cont'' @
   [CHR 0xC3, CHR 0xAD] @ ''nuas ou quebradas/tr'' @ [CHR 0xC3, CHR 0xAA] @
   ''mulas (jitter/shimmer)?'' @ [CHR 0x0A] @ ''    - '' @
   [CHR 0x2A, CHR 0x2A] @ ''Formantes'' @ [CHR 0x2A, CHR 0x2A] @ '': H'' @
   [CHR 0xC3, CHR 0xA1] @ '' regi'' @ [CHR 0xC3, CHR 0xB5] @
   ''es de energia concentrada bem definidas?'' @ [CHR 0x0A] @ ''6.  '' @
   [CHR 0x2A, CHR 0x2A] @ ''Recomenda'' @
   [CHR 0xC3, CHR 0xA7, CHR 0xC3, CHR 0xA3] @ ''o R'' @
   [CHR 0xC3, CHR 0xA1] @ ''pida'' @ [CHR 0x2A, CHR 0x2A] @
   '': Uma dica breve para melhoria da comunica'' @
   [CHR 0xC3, CHR 0xA7, CHR 0xC3, CHR 0xA3] @ ''o ou sa'' @
   [CHR 0xC3, CHR 0xBA] @ ''de vocal.'' @ [CHR 0x0A, CHR 0x0A] @
   ''Formate a resposta usando Markdown. Use emojis para ilustrar'' @
   '' os pontos principais. Seja t'' @ [CHR 0xC3, CHR 0xA9] @
   ''cnico mas acess'' @ [CHR 0xC3, CHR 0xAD] @ ''vel.'' @ [CHR 0x0A]"

definition promptAudioOnly :: string where
  "promptAudioOnly =
   ''Analise este '' @ [CHR 0xC3, CHR 0xA1] @ ''udio focando nas caracter'' @
   [CHR 0xC3, CHR 0xAD] @ ''sticas da voz.''"

definition promptAudioAndImage :: string where
  "promptAudioAndImage =
   ''Analise o '' @ [CHR 0xC3, CHR 0xA1] @
   ''udio e a imagem do espectrograma anexada. Correlacione o que'' @
   '' voc'' @ [CHR 0xC3, CHR 0xAA] @ '' ouve com os padr'' @
   [CHR 0xC3, CHR 0xB5] @ ''es visuais no espectrograma (ex: harm'' @
   [CHR 0xC3, CHR 0xB4] @ ''nicos, ru'' @ [CHR 0xC3, CHR 0xAD] @ ''do).''"

definition noAnalysisText :: string where
  "noAnalysisText =
   ''N'' @ [CHR 0xC3, CHR 0xA3] @ ''o foi poss'' @ [CHR 0xC3, CHR 0xAD] @
   ''vel gerar uma an'' @ [CHR 0xC3, CHR 0xA1] @ ''lise.''"

definition connectErrorText :: string where
  "connectErrorText =
     ''Erro ao conectar com a IA. Verifique sua chave de API ou tente novamente.''"

text \<open>An element of \<open>contents.parts\<close>: inline data (MIME type and base64 data) or text.\<close>

datatype Part = InlineData string "string option" | TextPart string

record GenerateContentRequest =
  model :: string
  parts :: "Part list"
  systemInstruction :: string
  temperature :: real

text \<open>
  What the function reads from its environment: \<open>process.env.API_KEY\<close>, the data URL that
  \<open>FileReader.readAsDataURL\<close> produces for a blob (or its error), and the remote model,
  which answers a request with the \<open>text\<close> of its response (or fails).
\<close>

record GeminiEnv =
  API_KEY :: "string option"
  readAsDataURL :: "Blob \<Rightarrow> error + string"
  generateContent :: "GenerateContentRequest \<Rightarrow> error + string option"

text \<open>\<open>s.split(',')\<close>.\<close>

fun split_comma :: "string \<Rightarrow> string list" where
  "split_comma [] = [[]]"
| "split_comma (c # cs) =
     (if c = CHR '','' then [] # split_comma cs
      else (case split_comma cs of [] \<Rightarrow> [[c]] | w # ws \<Rightarrow> (c # w) # ws))"

text \<open>\<open>xs[i]\<close> of a JavaScript array: \<open>undefined\<close> out of range.\<close>

definition js_index :: "'a list \<Rightarrow> nat \<Rightarrow> 'a option" where
  "js_index xs i = (if i < length xs then Some (xs ! i) else None)"

text \<open>
  \<open>blobToBase64\<close>: the promise rejects when the reader fails, and resolves with
  \<open>result.split(',')[1]\<close> otherwise.
\<close>

definition blobToBase64 :: "GeminiEnv \<Rightarrow> Blob \<Rightarrow> error + string option" where
  "blobToBase64 env blob =
     (case readAsDataURL env blob of
        Inl e \<Rightarrow> Inl e
      | Inr result \<Rightarrow> Inr (js_index (split_comma result) 1))"

text \<open>
  \<open>s.replace(/^data:image\/(png|jpg|jpeg);base64,/, "")\<close>: the match is anchored at the
  start, so one of three fixed prefixes is removed, or nothing.
\<close>

definition starts_with :: "string \<Rightarrow> string \<Rightarrow> bool" where
  "starts_with p s = (take (length p) s = p)"

definition stripImageHeader :: "string \<Rightarrow> string" where
  "stripImageHeader s =
     (if starts_with ''data:image/png;base64,'' s then drop 22 s
      else if starts_with ''data:image/jpg;base64,'' s then drop 22 s
      else if starts_with ''data:image/jpeg;base64,'' s then drop 23 s
      else s)"

text \<open>The \<open>parts\<close> array and the prompt, as lines 32 to 56 of the service build them.\<close>

definition buildParts :: "string \<Rightarrow> string option \<Rightarrow> string option \<Rightarrow> Part list" where
  "buildParts audioType base64Audio spectrogramBase64 =
     [InlineData audioType base64Audio] @
     (case orUndefined spectrogramBase64 of
        Some base64Image \<Rightarrow>
          [InlineData ''image/png'' (Some (stripImageHeader base64Image)),
           TextPart promptAudioAndImage]
      | None \<Rightarrow> [TextPart promptAudioOnly])"

definition geminiRequest :: "string \<Rightarrow> string option \<Rightarrow> string option \<Rightarrow> GenerateContentRequest" where
  "geminiRequest audioType base64Audio spectrogramBase64 =
     \<lparr>model = ''gemini-2.5-flash'',
      parts = buildParts audioType base64Audio spectrogramBase64,
      systemInstruction = SYSTEM_PROMPT,
      temperature = 4 / 10\<rparr>"

text \<open>The body of the \<open>try\<close> block: \<open>Inl\<close> is an exception thrown or a promise rejected in it.\<close>

definition analyzeBody :: "GeminiEnv \<Rightarrow> Blob \<Rightarrow> string option \<Rightarrow> error + string" where
  "analyzeBody env audioBlob spectrogramBase64 =
     (if \<not> truthy (API_KEY env) then Inl (Error ''API Key not found'')
      else case blobToBase64 env audioBlob of
        Inl e \<Rightarrow> Inl e
      | Inr base64Audio \<Rightarrow>
          (case generateContent env
                  (geminiRequest (blob_type audioBlob) base64Audio spectrogramBase64) of
             Inl e \<Rightarrow> Inl e
           | Inr text \<Rightarrow>
               Inr (case orUndefined text of Some t \<Rightarrow> t | None \<Rightarrow> noAnalysisText)))"

text \<open>
  \<open>analyzeAudioWithGemini\<close>: the outcome of the promise it returns, \<open>Inl\<close> a rejection and
  \<open>Inr\<close> the string it resolves with. The \<open>catch\<close> block logs and returns a fixed string.
\<close>

definition analyzeAudioWithGemini :: "GeminiEnv \<Rightarrow> Blob \<Rightarrow> string option \<Rightarrow> error + string" where
  "analyzeAudioWithGemini env audioBlob spectrogramBase64 =
     (case analyzeBody env audioBlob spectrogramBase64 of
        Inl e \<Rightarrow> Inr connectErrorText
      | Inr text \<Rightarrow> Inr text)"

subsection \<open>The capture session (App)\<close>

text \<open>
  \<open>AnalysisStatus\<close> and \<open>AudioMetrics\<close> are declared in \<open>types\<close>, which is not among the
  source files: the members are those the component names, the fields those of the
  object it builds.
\<close>

datatype AnalysisStatus = IDLE | RECORDING | PROCESSING | COMPLETED | ERROR

record AudioMetrics =
  pitch :: real
  volume :: real
  clarity :: real

text \<open>
  The module-level \<open>analyzer\<close> is an object of the class \<open>AudioAnalyzer\<close>, which is not
  among the source files. The component reads three getters from it; the state holds
  what they return at the moment, and the audio input changes that at any time (event
  \<open>Audio\<close> below).
\<close>

record AnalyzerReading =
  getPitch :: real
  getVolume :: real
  getFrequencyData :: "byte list"

type_synonym MediaStream = nat

datatype RecordingState = inactive | recording | paused

text \<open>
  A \<open>MediaRecorder\<close> object: its \<open>state\<close>, its stream, whether a \<open>stop\<close> event is queued
  for it, and its \<open>onstop\<close> handler. The only handler the component installs is the closure
  of \<open>stopRecording\<close>, which is determined by the \<open>spectrogramImage\<close> it captured.
\<close>

record MediaRecorder =
  rec_state :: RecordingState
  rec_stream :: MediaStream
  stop_pending :: bool
  onstop :: "string option option"

text \<open>
  The calls the component makes to the outside, in the order it makes them; a call is
  recorded when it is made, also when it throws. \<open>Await\<close> marks an \<open>await\<close>: the handler
  is suspended there, and what follows runs in a later task than what precedes.
\<close>

datatype call =
    SpeechCancel
  | AnalyzerStart
  | SpeechSpeak
  | NewMediaRecorder nat
  | RecorderStart nat
  | RecorderStop nat
  | AnalyzerStop
  | GetCanvasImage
  | ConsoleError
  | Alert string
  | AnalyzerGetPitch
  | AnalyzerGetVolume
  | AnalyzerGetFrequencyData
  | RequestAnimationFrame nat
  | CancelAnimationFrame nat
  | AnalyzeAudio Blob "string option"
  | Await

text \<open>
  The state of the component (\<open>useState\<close> and \<open>useRef\<close> cells), then what it shares with
  the browser: the analyzer, the recorder objects (\<open>mediaRecorderRef\<close> holds an index
  into them), the list of animation frame callbacks (each is an \<open>updateMetrics\<close> closure,
  determined by the \<open>status\<close> of the render that created it), the next callback handle,
  and the trace of calls.
\<close>

record App =
  status :: AnalysisStatus
  metrics :: AudioMetrics
  frequencyData :: "byte list"
  geminiAnalysis :: "string option"
  mediaRecorderRef :: "nat option"
  chunksRef :: "Blob list"
  animationRef :: "nat option"
  analyzer :: AnalyzerReading
  recorders :: "MediaRecorder list"
  frames :: "(nat \<times> AnalysisStatus) list"
  nextHandle :: nat
  trace :: "call list"

text \<open>The state after the first render; the browser hands out handles from 1.\<close>

definition init :: "AnalyzerReading \<Rightarrow> App" where
  "init a =
     \<lparr>status = IDLE,
      metrics = \<lparr>pitch = 0, volume = - 100, clarity = 0\<rparr>,
      frequencyData = [],
      geminiAnalysis = None,
      mediaRecorderRef = None,
      chunksRef = [],
      animationRef = None,
      analyzer = a,
      recorders = [],
      frames = [],
      nextHandle = 1,
      trace = []\<rparr>"

definition startErrorText :: string where
  "startErrorText =
   ''Erro ao iniciar. Verifique permiss'' @ [CHR 0xC3, CHR 0xB5] @
   ''es de microfone.''"

definition analysisFailedText :: string where
  "analysisFailedText =
   ''Falha na an'' @ [CHR 0xC3, CHR 0xA1] @ ''lise da IA.''"

text \<open>
  \<open>requestAnimationFrame(cb)\<close> appends the callback under a fresh handle, which is the
  \<open>nextHandle\<close> of the state before; \<open>cancelAnimationFrame(h)\<close> removes the callbacks of
  handle \<open>h\<close>.
\<close>

definition requestAnimationFrame :: "AnalysisStatus \<Rightarrow> App \<Rightarrow> App" where
  "requestAnimationFrame cb s =
     s\<lparr>frames := frames s @ [(nextHandle s, cb)],
       nextHandle := Suc (nextHandle s),
       trace := trace s @ [RequestAnimationFrame (nextHandle s)]\<rparr>"

definition cancelAnimationFrame :: "nat \<Rightarrow> App \<Rightarrow> App" where
  "cancelAnimationFrame h s =
     s\<lparr>frames := filter (\<lambda>f. fst f \<noteq> h) (frames s),
       trace := trace s @ [CancelAnimationFrame h]\<rparr>"

text \<open>
  \<open>updateMetrics\<close>, as the closure of a render whose \<open>status\<close> was \<open>st\<close>: the test reads
  the status of the closure, not the current one.
\<close>

definition updateMetrics :: "AnalysisStatus \<Rightarrow> App \<Rightarrow> App" where
  "updateMetrics st s =
     (if st = RECORDING then
        let p = getPitch (analyzer s);
            v = getVolume (analyzer s);
            freqData = getFrequencyData (analyzer s);
            s1 = s\<lparr>trace := trace s @
                   [AnalyzerGetPitch, AnalyzerGetVolume, AnalyzerGetFrequencyData]\<rparr>;
            s2 = s1\<lparr>metrics := \<lparr>pitch = p, volume = v, clarity = 0\<rparr>\<rparr>;
            s3 = s2\<lparr>frequencyData := freqData\<rparr>;
            s4 = requestAnimationFrame st s3
        in s4\<lparr>animationRef := Some (nextHandle s3)\<rparr>
      else s)"

text \<open>\<open>if (animationRef.current) cancelAnimationFrame(animationRef.current)\<close>; 0 is falsy.\<close>

definition cancelPending :: "App \<Rightarrow> App" where
  "cancelPending s =
     (case animationRef s of
        None \<Rightarrow> s
      | Some h \<Rightarrow> if h \<noteq> 0 then cancelAnimationFrame h s else s)"

text \<open>The body of the effect on \<open>[status, updateMetrics]\<close>; its cleanup is \<open>cancelPending\<close>.\<close>

definition statusEffect :: "App \<Rightarrow> App" where
  "statusEffect s =
     (if status s = RECORDING then updateMetrics (status s) s else cancelPending s)"

text \<open>
  \<open>setStatus(v)\<close> together with the commit it causes. A render with a new status makes a
  new \<open>updateMetrics\<close>, so the effect runs again: the cleanup of the previous run, then
  the body under the new status. Setting the status it already has, and the other
  setters, change neither dependency, and the effect does not run. The commit is taken
  to happen before the next event.
\<close>

definition setStatus :: "AnalysisStatus \<Rightarrow> App \<Rightarrow> App" where
  "setStatus v s =
     (if status s = v then s else statusEffect ((cancelPending s)\<lparr>status := v\<rparr>))"

text \<open>A rendering frame: the browser takes the oldest callback off its list and runs it.\<close>

definition animationFrame :: "App \<Rightarrow> App" where
  "animationFrame s =
     (case frames s of
        [] \<Rightarrow> s
      | (h, cb) # rest \<Rightarrow> updateMetrics cb (s\<lparr>frames := rest\<rparr>))"

text \<open>
  What \<open>startAnalysisFlow\<close> meets on its way: the outcome of \<open>analyzer.start()\<close> (a stream,
  or the rejection for a missing device or a denied permission), what happens to the
  spoken instructions, and whether \<open>new MediaRecorder\<close> and \<open>recorder.start()\<close> throw.
\<close>

datatype SpeakOutcome = SpeechUnavailable error | SpeakThrows error | Spoken

record StartEnv =
  analyzer_start :: "error + MediaStream"
  speak :: SpeakOutcome
  new_recorder_throws :: "error option"
  recorder_start_throws :: "error option"

text \<open>
  \<open>await speakInstructions()\<close>: the exception the \<open>await\<close> rethrows, if any, and the state.
  The executor first calls \<open>speechSynthesis.cancel()\<close> (line 90). When that call throws
  (\<open>SpeechUnavailable\<close>), the executor throws and the promise rejects. Otherwise it
  calls \<open>speak\<close> (line 137) inside a \<open>try\<close> of its own: when \<open>speak\<close> throws (\<open>SpeakThrows\<close>),
  the inner \<open>catch\<close> logs and calls \<open>skipInstructions\<close>, which cancels the speech (line
  71) and resolves; when it does not (\<open>Spoken\<close>), \<open>skipInstructions\<close> runs later, from the
  end of the utterance, its error, the timeout or the skip button. \<open>isSpeakingInstructions\<close>
  is false again once the promise is settled and is not part of the state.
\<close>

definition speakInstructions :: "SpeakOutcome \<Rightarrow> App \<Rightarrow> error option \<times> App" where
  "speakInstructions outcome s =
     (let s1 = s\<lparr>trace := trace s @ [SpeechCancel]\<rparr>
      in (case outcome of
            SpeechUnavailable e \<Rightarrow> (Some e, s1\<lparr>trace := trace s1 @ [Await]\<rparr>)
          | SpeakThrows e \<Rightarrow>
              (None, s1\<lparr>trace := trace s1 @ [SpeechSpeak, ConsoleError, SpeechCancel, Await]\<rparr>)
          | Spoken \<Rightarrow>
              (None, s1\<lparr>trace := trace s1 @ [SpeechSpeak, Await, SpeechCancel]\<rparr>)))"

text \<open>The \<open>catch\<close> block of \<open>startAnalysisFlow\<close>.\<close>

definition startCatch :: "App \<Rightarrow> App" where
  "startCatch s =
     setStatus IDLE (s\<lparr>trace := trace s @ [ConsoleError, Alert startErrorText]\<rparr>)"

text \<open>
  The \<open>try\<close> block of \<open>startAnalysisFlow\<close>, run to its end: the exception that leaves it,
  if any, and the state at that point; what was written before a throw stays written.
\<close>

definition startTry :: "StartEnv \<Rightarrow> App \<Rightarrow> error option \<times> App" where
  "startTry env s =
     (let s1 = s\<lparr>geminiAnalysis := None\<rparr>;
          s2 = s1\<lparr>trace := trace s1 @ [AnalyzerStart, Await]\<rparr>
      in (case analyzer_start env of
            Inl e \<Rightarrow> (Some e, s2)
          | Inr stream \<Rightarrow>
             (case speakInstructions (speak env) s2 of
                (Some e, s3) \<Rightarrow> (Some e, s3)
              | (None, s3) \<Rightarrow>
                 (let i = length (recorders s3);
                      s4 = s3\<lparr>trace := trace s3 @ [NewMediaRecorder i]\<rparr>
                  in (case new_recorder_throws env of
                        Some e \<Rightarrow> (Some e, s4)
                      | None \<Rightarrow>
                         (let s5 = s4\<lparr>recorders := recorders s4 @
                                    [\<lparr>rec_state = inactive, rec_stream = stream,
                                      stop_pending = False, onstop = None\<rparr>]\<rparr>;
                              s6 = s5\<lparr>mediaRecorderRef := Some i\<rparr>;
                              s7 = s6\<lparr>chunksRef := []\<rparr>;
                              s8 = s7\<lparr>trace := trace s7 @ [RecorderStart i]\<rparr>
                          in (case recorder_start_throws env of
                                Some e \<Rightarrow> (Some e, s8)
                              | None \<Rightarrow>
                                  (None,
                                   setStatus RECORDING
                                     (s8\<lparr>recorders := (recorders s8)
                                        [i := (recorders s8 ! i)
                                                \<lparr>rec_state := recording\<rparr>]\<rparr>)))))))))"

text \<open>
  \<open>startAnalysisFlow\<close>: the outcome of the promise it returns to its caller (\<open>Inl\<close> a
  rejection, \<open>Inr\<close> fulfilment) and the state it leaves. Every statement is inside the
  \<open>try\<close>, and the \<open>catch\<close> block rethrows nothing.
\<close>

definition startAnalysisFlow :: "StartEnv \<Rightarrow> App \<Rightarrow> (error + unit) \<times> App" where
  "startAnalysisFlow env s =
     (case startTry env s of
        (None, s') \<Rightarrow> (Inr (), s')
      | (Some e, s') \<Rightarrow> (Inr (), startCatch s'))"

text \<open>
  \<open>stopRecording\<close>; \<open>canvasImage\<close> is what \<open>getCanvasImage()\<close> returns when it is called
  (\<open>None\<close> for \<open>null\<close>). The \<open>Spectrogram\<close> is always rendered, so its ref is attached.
\<close>

definition stopRecording :: "string option \<Rightarrow> App \<Rightarrow> App" where
  "stopRecording canvasImage s =
     (let s1 = s\<lparr>trace := trace s @ [SpeechCancel]\<rparr>
      in case mediaRecorderRef s1 of
           None \<Rightarrow> s1
         | Some i \<Rightarrow>
             (case js_index (recorders s1) i of
                None \<Rightarrow> s1
              | Some r \<Rightarrow>
                  if rec_state r \<noteq> inactive then
                    let s2 = s1\<lparr>trace := trace s1 @ [GetCanvasImage]\<rparr>;
                        spectrogramImage = canvasImage;
                        s3 = s2\<lparr>recorders := (recorders s2)
                                 [i := r\<lparr>rec_state := inactive, stop_pending := True\<rparr>],
                               trace := trace s2 @ [RecorderStop i]\<rparr>;
                        s4 = s3\<lparr>trace := trace s3 @ [AnalyzerStop]\<rparr>;
                        s5 = setStatus PROCESSING s4
                    in s5\<lparr>recorders := (recorders s5)
                            [i := (recorders s5 ! i)\<lparr>onstop := Some spectrogramImage\<rparr>]\<rparr>
                  else s1))"

text \<open>\<open>recorder.ondataavailable\<close>: a chunk that is not empty is pushed.\<close>

definition ondataavailable :: "Blob \<Rightarrow> App \<Rightarrow> App" where
  "ondataavailable d s =
     (if blob_bytes d \<noteq> [] then s\<lparr>chunksRef := chunksRef s @ [d]\<rparr> else s)"

text \<open>\<open>new Blob(chunks, { type })\<close>.\<close>

definition newBlob :: "Blob list \<Rightarrow> string \<Rightarrow> Blob" where
  "newBlob chunks ty = \<lparr>blob_type = ty, blob_bytes = concat (map blob_bytes chunks)\<rparr>"

definition performGeminiAnalysis :: "GeminiEnv \<Rightarrow> Blob \<Rightarrow> string option \<Rightarrow> App \<Rightarrow> App" where
  "performGeminiAnalysis env audioBlob spectrogramImage s =
     (let s1 = s\<lparr>trace := trace s @
                 [AnalyzeAudio audioBlob (orUndefined spectrogramImage), Await]\<rparr>
      in case analyzeAudioWithGemini env audioBlob (orUndefined spectrogramImage) of
           Inr result \<Rightarrow> setStatus COMPLETED (s1\<lparr>geminiAnalysis := Some result\<rparr>)
         | Inl e \<Rightarrow> setStatus ERROR (s1\<lparr>geminiAnalysis := Some analysisFailedText\<rparr>))"

text \<open>
  The \<open>stop\<close> event of recorder \<open>i\<close>, fired once for a queued stop: it runs the \<open>onstop\<close>
  handler if one is installed, which builds the blob from the chunks of that moment.
\<close>

definition recorderStopped :: "nat \<Rightarrow> GeminiEnv \<Rightarrow> App \<Rightarrow> App" where
  "recorderStopped i env s =
     (case js_index (recorders s) i of
        None \<Rightarrow> s
      | Some r \<Rightarrow>
          if stop_pending r then
            let s1 = s\<lparr>recorders := (recorders s)[i := r\<lparr>stop_pending := False\<rparr>]\<rparr>
            in case onstop r of
                 None \<Rightarrow> s1
               | Some spectrogramImage \<Rightarrow>
                   performGeminiAnalysis env (newBlob (chunksRef s1) ''audio/webm'')
                     spectrogramImage s1
          else s)"

text \<open>
  What can happen to the component. Each handler runs to its end before the next event;
  no event is tied to what the page shows, so every order of events is covered.
\<close>

datatype event =
    Audio AnalyzerReading
  | Frame
  | StartClick StartEnv
  | StopClick "string option"
  | DataAvailable Blob
  | RecorderStopEvent nat GeminiEnv
  | ClearResult

fun step :: "event \<Rightarrow> App \<Rightarrow> App" where
  "step (Audio a) s = s\<lparr>analyzer := a\<rparr>"
| "step Frame s = animationFrame s"
| "step (StartClick env) s = snd (startAnalysisFlow env s)"
| "step (StopClick canvasImage) s = stopRecording canvasImage s"
| "step (DataAvailable d) s = ondataavailable d s"
| "step (RecorderStopEvent i env) s = recorderStopped i env s"
| "step ClearResult s = s\<lparr>geminiAnalysis := None\<rparr>"

fun steps :: "event list \<Rightarrow> App \<Rightarrow> App" where
  "steps [] s = s"
| "steps (e # es) s = steps es (step e s)"

inductive reachable :: "App \<Rightarrow> bool" where
  reachable_init: "reachable (init a)"
| reachable_step: "reachable s \<Longrightarrow> reachable (step e s)"

subsection \<open>Predicates on the state and fixed inputs, used in the statements below\<close>

text \<open>
  The pending callbacks while recording: exactly the one whose handle \<open>animationRef\<close>
  holds, and it is a closure of a \<open>RECORDING\<close> render.
\<close>

fun one_pending :: "nat option \<Rightarrow> (nat \<times> AnalysisStatus) list \<Rightarrow> bool" where
  "one_pending None fs = False"
| "one_pending (Some h) fs = (0 < h \<and> fs = [(h, RECORDING)])"

definition tick_inv :: "App \<Rightarrow> bool" where
  "tick_inv s =
     (0 < nextHandle s \<and>
      (if status s = RECORDING then one_pending (animationRef s) (frames s)
       else frames s = []))"


text \<open>What \<open>cancelPending\<close> adds to the trace.\<close>

definition cancel_calls :: "App \<Rightarrow> call list" where
  "cancel_calls s =
     (case animationRef s of
        None \<Rightarrow> []
      | Some h \<Rightarrow> if h \<noteq> 0 then [CancelAnimationFrame h] else [])"

text \<open>
  Recorder \<open>i\<close> is inactive and the \<open>onstop\<close> handler installed on it is the closure
  of \<open>stopRecording\<close> that captured \<open>img\<close>.
\<close>

definition stopped_with :: "nat \<Rightarrow> string option \<Rightarrow> App \<Rightarrow> bool" where
  "stopped_with i img s =
     (case js_index (recorders s) i of
        None \<Rightarrow> False
      | Some r \<Rightarrow> rec_state r = inactive \<and> onstop r = Some img)"

text \<open>A \<open>stop\<close> event is queued for recorder \<open>i\<close>.\<close>

definition stop_queued :: "nat \<Rightarrow> App \<Rightarrow> bool" where
  "stop_queued i s =
     (case js_index (recorders s) i of None \<Rightarrow> False | Some r \<Rightarrow> stop_pending r)"

text \<open>
  Inputs for the concrete runs: an analyzer reading, two outcomes of a start, a captured
  image, a recorded chunk and an environment in which the remote model answers.
\<close>

definition reading_220 :: AnalyzerReading where
  "reading_220 = \<lparr>getPitch = 220, getVolume = - 20, getFrequencyData = [12, 200, 7]\<rparr>"

definition start_succeeds :: StartEnv where
  "start_succeeds =
     \<lparr>analyzer_start = Inr 0, speak = Spoken, new_recorder_throws = None,
      recorder_start_throws = None\<rparr>"

definition start_denied :: StartEnv where
  "start_denied =
     \<lparr>analyzer_start = Inl (Error ''NotAllowedError''), speak = Spoken,
      new_recorder_throws = None, recorder_start_throws = None\<rparr>"


definition png_capture :: "string option" where
  "png_capture = Some ''data:image/png;base64,iVBORw0KGgo=''"

definition webm_chunk :: Blob where
  "webm_chunk = \<lparr>blob_type = ''audio/webm'', blob_bytes = [26, 69, 223, 163]\<rparr>"

definition gemini_answers :: GeminiEnv where
  "gemini_answers =
     \<lparr>API_KEY = Some ''key'',
      readAsDataURL = (\<lambda>b. Inr ''data:audio/webm;base64,GkXfow==''),
      generateContent = (\<lambda>req. Inr (Some ''Timbre aveludado.''))\<rparr>"

text \<open>The string that \<open>analyzeAudioWithGemini\<close> resolves with.\<close>

definition resolvedText :: "GeminiEnv \<Rightarrow> Blob \<Rightarrow> string option \<Rightarrow> string" where
  "resolvedText env audioBlob spectrogramBase64 =
     (case analyzeBody env audioBlob spectrogramBase64 of
        Inl e \<Rightarrow> connectErrorText
      | Inr text \<Rightarrow> text)"

text \<open>
  The number of ticks run so far: every run of the sequence of \<open>updateMetrics\<close> reads the
  pitch exactly once.
\<close>

definition ticks :: "App \<Rightarrow> nat" where
  "ticks s = count_list (trace s) AnalyzerGetPitch"

text \<open>
  An environment in which the answer of the remote model shows what the request
  carried: the type and the data of every inline part, in order.
\<close>

fun part_summary :: "Part \<Rightarrow> string" where
  "part_summary (InlineData ty d) =
     ty @ '':'' @ (case d of None \<Rightarrow> ''undefined'' | Some x \<Rightarrow> x) @ '';''"
| "part_summary (TextPart t) = []"

definition gemini_echo :: GeminiEnv where
  "gemini_echo =
     \<lparr>API_KEY = Some ''key'',
      readAsDataURL = (\<lambda>b. Inr (''data:'' @ blob_type b @ '';base64,GkXfow=='')),
      generateContent = (\<lambda>req. Inr (Some (concat (map part_summary (parts req)))))\<rparr>"

subsection \<open>The spectrogram buffer\<close>

text \<open>
  Modelled from the spec: the \<open>Spectrogram\<close> component, which holds the image that the
  specification calls \<open>SpectrogramBuffer\<close>, is not among the source files. The
  specification gives the image a constant width, the number of visible time columns,
  and says of \<open>appendColumn\<close> that it appends one new column and discards the oldest one
  once the width limit is reached, that appending never exceeds the width, and that
  this first-in-first-out scroll is the only eviction. A column is what the colour ramp
  makes of a snapshot; its content plays no part in the eviction.
\<close>

record 'c SpectrogramBuffer =
  width :: nat
  columns :: "'c list"

text \<open>
  Modelled from the spec: \<open>appendColumn\<close> puts the new column last and drops, from the
  oldest end, the columns beyond the configured width.
\<close>

definition appendColumn :: "'c SpectrogramBuffer \<Rightarrow> 'c \<Rightarrow> 'c SpectrogramBuffer" where
  "appendColumn b snapshotColumn =
     (let cols = columns b @ [snapshotColumn]
      in b\<lparr>columns := drop (length cols - width b) cols\<rparr>)"

section \<open>Properties\<close>

subsection \<open>The invariant of the tick loop\<close>

lemma tick_inv_init: "tick_inv (init a)"
  by (simp add: tick_inv_def init_def)

lemma tick_inv_update [simp]:
  "tick_inv (s\<lparr>trace := tr\<rparr>) = tick_inv s"
  "tick_inv (s\<lparr>geminiAnalysis := g\<rparr>) = tick_inv s"
  "tick_inv (s\<lparr>recorders := rs\<rparr>) = tick_inv s"
  "tick_inv (s\<lparr>mediaRecorderRef := m\<rparr>) = tick_inv s"
  "tick_inv (s\<lparr>chunksRef := cs\<rparr>) = tick_inv s"
  "tick_inv (s\<lparr>analyzer := a\<rparr>) = tick_inv s"
  by (simp_all add: tick_inv_def)

lemma tick_inv_setStatus: "tick_inv s \<Longrightarrow> tick_inv (setStatus v s)"
  by (auto simp: tick_inv_def setStatus_def statusEffect_def updateMetrics_def cancelPending_def
      cancelAnimationFrame_def requestAnimationFrame_def Let_def split: option.splits if_splits)

lemma tick_inv_animationFrame: "tick_inv s \<Longrightarrow> tick_inv (animationFrame s)"
  by (cases "animationRef s")
    (auto simp: tick_inv_def animationFrame_def updateMetrics_def requestAnimationFrame_def Let_def
      split: if_splits list.splits)

lemma tick_inv_startCatch: "tick_inv s \<Longrightarrow> tick_inv (startCatch s)"
  by (simp add: startCatch_def tick_inv_setStatus)

lemma tick_inv_startAnalysisFlow: "tick_inv s \<Longrightarrow> tick_inv (snd (startAnalysisFlow env s))"
  by (cases "speak env") (simp_all add: startAnalysisFlow_def startTry_def speakInstructions_def Let_def tick_inv_startCatch tick_inv_setStatus
      split: sum.splits option.splits prod.splits SpeakOutcome.splits)

lemma tick_inv_stopRecording: "tick_inv s \<Longrightarrow> tick_inv (stopRecording img s)"
  by (simp add: stopRecording_def Let_def tick_inv_setStatus split: option.splits)

lemma tick_inv_performGeminiAnalysis:
  "tick_inv s \<Longrightarrow> tick_inv (performGeminiAnalysis env b img s)"
  by (simp add: performGeminiAnalysis_def Let_def tick_inv_setStatus split: sum.splits)

lemma tick_inv_recorderStopped: "tick_inv s \<Longrightarrow> tick_inv (recorderStopped i env s)"
  by (simp add: recorderStopped_def Let_def tick_inv_performGeminiAnalysis split: option.splits)

lemma tick_inv_step: "tick_inv s \<Longrightarrow> tick_inv (step e s)"
  by (cases e) (simp_all add: tick_inv_animationFrame tick_inv_startAnalysisFlow
      tick_inv_stopRecording tick_inv_recorderStopped ondataavailable_def)

lemma reachable_tick_inv: "reachable s \<Longrightarrow> tick_inv s"
  by (induction rule: reachable.induct) (simp_all add: tick_inv_init tick_inv_step)

lemma reachable_steps: "reachable s \<Longrightarrow> reachable (steps es s)"
  by (induction es arbitrary: s) (simp_all add: reachable_step)

lemma idle_no_frames: "reachable s \<Longrightarrow> status s \<noteq> RECORDING \<Longrightarrow> frames s = []"
  by (drule reachable_tick_inv) (simp add: tick_inv_def)

lemma recording_frames:
  assumes "reachable s" "status s = RECORDING"
  obtains h where "frames s = [(h, RECORDING)]" "animationRef s = Some h" "0 < h"
  using reachable_tick_inv[OF assms(1)] assms(2)
  by (cases "animationRef s") (auto simp: tick_inv_def)

lemma updateMetrics_RECORDING:
  "updateMetrics RECORDING s =
     s\<lparr>metrics := \<lparr>pitch = getPitch (analyzer s), volume = getVolume (analyzer s), clarity = 0\<rparr>,
       frequencyData := getFrequencyData (analyzer s),
       animationRef := Some (nextHandle s),
       frames := frames s @ [(nextHandle s, RECORDING)],
       nextHandle := Suc (nextHandle s),
       trace := trace s @ [AnalyzerGetPitch, AnalyzerGetVolume, AnalyzerGetFrequencyData,
                           RequestAnimationFrame (nextHandle s)]\<rparr>"
  by (simp add: updateMetrics_def requestAnimationFrame_def Let_def)

lemmas run_simps =
  init_def startAnalysisFlow_def startTry_def speakInstructions_def stopRecording_def setStatus_def statusEffect_def
  cancelPending_def cancelAnimationFrame_def updateMetrics_RECORDING animationFrame_def
  startCatch_def js_index_def Let_def

subsection \<open>What the setters and handlers leave alone\<close>

lemma cancelPending_other [simp]:
  "metrics (cancelPending s) = metrics s"
  "status (cancelPending s) = status s"
  "analyzer (cancelPending s) = analyzer s"
  "animationRef (cancelPending s) = animationRef s"
  "recorders (cancelPending s) = recorders s"
  "mediaRecorderRef (cancelPending s) = mediaRecorderRef s"
  "chunksRef (cancelPending s) = chunksRef s"
  "frequencyData (cancelPending s) = frequencyData s"
  "geminiAnalysis (cancelPending s) = geminiAnalysis s"
  by (simp_all add: cancelPending_def cancelAnimationFrame_def split: option.splits)

lemma trace_cancelPending: "trace (cancelPending s) = trace s @ cancel_calls s"
  by (simp add: cancelPending_def cancel_calls_def cancelAnimationFrame_def split: option.splits)

lemma cancel_calls_update [simp]:
  "cancel_calls (s\<lparr>trace := tr\<rparr>) = cancel_calls s"
  "cancel_calls (s\<lparr>status := v\<rparr>) = cancel_calls s"
  "cancel_calls (s\<lparr>geminiAnalysis := g\<rparr>) = cancel_calls s"
  "cancel_calls (s\<lparr>recorders := rs\<rparr>) = cancel_calls s"
  "cancel_calls (cancelPending s) = cancel_calls s"
  by (simp_all add: cancel_calls_def)

lemma status_setStatus [simp]: "status (setStatus v s) = v"
  by (simp add: setStatus_def statusEffect_def updateMetrics_RECORDING)

lemma setStatus_other [simp]:
  "recorders (setStatus v s) = recorders s"
  "mediaRecorderRef (setStatus v s) = mediaRecorderRef s"
  "chunksRef (setStatus v s) = chunksRef s"
  "geminiAnalysis (setStatus v s) = geminiAnalysis s"
  by (simp_all add: setStatus_def statusEffect_def updateMetrics_RECORDING)

lemma metrics_setStatus:
  "metrics (setStatus v s) =
     (if v = RECORDING \<and> status s \<noteq> RECORDING
      then \<lparr>pitch = getPitch (analyzer s), volume = getVolume (analyzer s), clarity = 0\<rparr>
      else metrics s)"
  by (simp add: setStatus_def statusEffect_def updateMetrics_RECORDING)

lemma frequencyData_setStatus:
  "v \<noteq> RECORDING \<Longrightarrow> frequencyData (setStatus v s) = frequencyData s"
  by (simp add: setStatus_def statusEffect_def)

lemma trace_setStatus_idle:
  "v \<noteq> RECORDING \<Longrightarrow>
   trace (setStatus v s) =
     trace s @ (if status s = v then [] else cancel_calls s @ cancel_calls s)"
  by (simp add: setStatus_def statusEffect_def trace_cancelPending)

lemma metrics_stopRecording: "metrics (stopRecording img s) = metrics s"
  by (simp add: stopRecording_def Let_def metrics_setStatus split: option.splits)

lemma metrics_recorderStopped: "metrics (recorderStopped i env s) = metrics s"
  by (simp add: recorderStopped_def performGeminiAnalysis_def Let_def metrics_setStatus
      split: option.splits sum.splits)


lemma status_startCatch: "status (startCatch s) = IDLE"
  by (simp add: startCatch_def)


lemma metrics_start_recording:
  assumes "status s \<noteq> RECORDING" and "status (snd (startAnalysisFlow env s)) = RECORDING"
  shows "metrics (snd (startAnalysisFlow env s)) =
           \<lparr>pitch = getPitch (analyzer s), volume = getVolume (analyzer s), clarity = 0\<rparr>"
  using assms
  by (cases "speak env") (simp_all add: startAnalysisFlow_def startTry_def speakInstructions_def Let_def metrics_setStatus status_startCatch
      split: sum.splits option.splits prod.splits SpeakOutcome.splits)

lemma analyzeAudioWithGemini_resolves:
  "analyzeAudioWithGemini env b img = Inr (resolvedText env b img)"
  by (simp add: analyzeAudioWithGemini_def resolvedText_def split: sum.splits)

lemma performGeminiAnalysis_eq:
  "performGeminiAnalysis env b img s =
     setStatus COMPLETED
       (s\<lparr>trace := trace s @ [AnalyzeAudio b (orUndefined img), Await],
          geminiAnalysis := Some (resolvedText env b (orUndefined img))\<rparr>)"
  by (simp add: performGeminiAnalysis_def Let_def analyzeAudioWithGemini_resolves)

lemma recording_after_start:
  "status (step (StartClick start_succeeds) (init reading_220)) = RECORDING"
  by (simp add: run_simps reading_220_def start_succeeds_def)

subsection \<open>A tick while recording\<close>

lemma nextHandle_cancelPending [simp]: "nextHandle (cancelPending s) = nextHandle s"
  by (simp add: cancelPending_def cancelAnimationFrame_def split: option.splits)

lemma frames_cancelPending_idle: "frames s = [] \<Longrightarrow> frames (cancelPending s) = []"
  by (simp add: cancelPending_def cancelAnimationFrame_def split: option.splits)

lemma first_tick:
  assumes "reachable s" and "status s \<noteq> RECORDING"
  shows "metrics (setStatus RECORDING s) =
           \<lparr>pitch = getPitch (analyzer s), volume = getVolume (analyzer s), clarity = 0\<rparr>"
    and "frequencyData (setStatus RECORDING s) = getFrequencyData (analyzer s)"
    and "trace (setStatus RECORDING s) = trace s @ cancel_calls s @
           [AnalyzerGetPitch, AnalyzerGetVolume, AnalyzerGetFrequencyData,
            RequestAnimationFrame (nextHandle s)]"
    and "frames (setStatus RECORDING s) = [(nextHandle s, RECORDING)]"
    and "animationRef (setStatus RECORDING s) = Some (nextHandle s)"
  using assms(2) frames_cancelPending_idle[OF idle_no_frames[OF assms]]
  by (simp_all add: setStatus_def statusEffect_def updateMetrics_RECORDING trace_cancelPending)

text \<open>
  Claim C1. In every reachable state whose status is \<open>RECORDING\<close>, exactly one tick is
  scheduled, and the rendering frame that runs it performs the whole sequence: it reads
  pitch, volume and frequency data from the analyzer, publishes the metrics made of these
  readings (with clarity 0) and the frequency data, and schedules exactly one successor
  tick, whose handle it stores; the status stays \<open>RECORDING\<close>. The tick that the commit of
  \<open>RECORDING\<close> runs on entering the state performs the same sequence.
\<close>

theorem tick_while_recording:
  "(reachable s \<and> status s = RECORDING \<longrightarrow>
      map snd (frames s) = [RECORDING] \<and>
      metrics (step Frame s) =
        \<lparr>pitch = getPitch (analyzer s), volume = getVolume (analyzer s), clarity = 0\<rparr> \<and>
      frequencyData (step Frame s) = getFrequencyData (analyzer s) \<and>
      trace (step Frame s) = trace s @
        [AnalyzerGetPitch, AnalyzerGetVolume, AnalyzerGetFrequencyData,
         RequestAnimationFrame (nextHandle s)] \<and>
      frames (step Frame s) = [(nextHandle s, RECORDING)] \<and>
      animationRef (step Frame s) = Some (nextHandle s) \<and>
      status (step Frame s) = RECORDING) \<and>
   (reachable t \<and> status t \<noteq> RECORDING \<longrightarrow>
      metrics (setStatus RECORDING t) =
        \<lparr>pitch = getPitch (analyzer t), volume = getVolume (analyzer t), clarity = 0\<rparr> \<and>
      frequencyData (setStatus RECORDING t) = getFrequencyData (analyzer t) \<and>
      trace (setStatus RECORDING t) = trace t @ cancel_calls t @
        [AnalyzerGetPitch, AnalyzerGetVolume, AnalyzerGetFrequencyData,
         RequestAnimationFrame (nextHandle t)] \<and>
      frames (setStatus RECORDING t) = [(nextHandle t, RECORDING)] \<and>
      animationRef (setStatus RECORDING t) = Some (nextHandle t) \<and>
      status (setStatus RECORDING t) = RECORDING)"
proof (rule conjI; rule impI)
  assume a: "reachable s \<and> status s = RECORDING"
  then obtain h where h: "frames s = [(h, RECORDING)]"
    by (auto elim: recording_frames)
  then have "step Frame s = updateMetrics RECORDING (s\<lparr>frames := []\<rparr>)"
    by (simp add: animationFrame_def)
  with h a show "map snd (frames s) = [RECORDING] \<and>
      metrics (step Frame s) =
        \<lparr>pitch = getPitch (analyzer s), volume = getVolume (analyzer s), clarity = 0\<rparr> \<and>
      frequencyData (step Frame s) = getFrequencyData (analyzer s) \<and>
      trace (step Frame s) = trace s @
        [AnalyzerGetPitch, AnalyzerGetVolume, AnalyzerGetFrequencyData,
         RequestAnimationFrame (nextHandle s)] \<and>
      frames (step Frame s) = [(nextHandle s, RECORDING)] \<and>
      animationRef (step Frame s) = Some (nextHandle s) \<and>
      status (step Frame s) = RECORDING"
    by (simp add: updateMetrics_RECORDING)
next
  assume "reachable t \<and> status t \<noteq> RECORDING"
  then have r: "reachable t" and i: "status t \<noteq> RECORDING"
    by simp_all
  from first_tick[OF r i]
  show "metrics (setStatus RECORDING t) =
        \<lparr>pitch = getPitch (analyzer t), volume = getVolume (analyzer t), clarity = 0\<rparr> \<and>
      frequencyData (setStatus RECORDING t) = getFrequencyData (analyzer t) \<and>
      trace (setStatus RECORDING t) = trace t @ cancel_calls t @
        [AnalyzerGetPitch, AnalyzerGetVolume, AnalyzerGetFrequencyData,
         RequestAnimationFrame (nextHandle t)] \<and>
      frames (setStatus RECORDING t) = [(nextHandle t, RECORDING)] \<and>
      animationRef (setStatus RECORDING t) = Some (nextHandle t) \<and>
      status (setStatus RECORDING t) = RECORDING"
    by simp
qed

theorem tick_while_recording_witness:
  "reachable (step (StartClick start_succeeds) (init reading_220)) \<and>
   status (step (StartClick start_succeeds) (init reading_220)) = RECORDING \<and>
   metrics (step Frame (step (StartClick start_succeeds) (init reading_220))) =
     \<lparr>pitch = 220, volume = - 20, clarity = 0\<rparr> \<and>
   frequencyData (step Frame (step (StartClick start_succeeds) (init reading_220))) =
     [12, 200, 7] \<and>
   frames (step Frame (step (StartClick start_succeeds) (init reading_220))) =
     [(2, RECORDING)] \<and>
   reachable (init reading_220) \<and>
   status (init reading_220) \<noteq> RECORDING \<and>
   metrics (setStatus RECORDING (init reading_220)) =
     \<lparr>pitch = 220, volume = - 20, clarity = 0\<rparr> \<and>
   frames (setStatus RECORDING (init reading_220)) = [(1, RECORDING)]"
proof -
  have r: "reachable (step (StartClick start_succeeds) (init reading_220))"
    by (intro reachable_step reachable_init)
  have a: "analyzer (step (StartClick start_succeeds) (init reading_220)) = reading_220"
    "nextHandle (step (StartClick start_succeeds) (init reading_220)) = 2"
    by (simp_all add: run_simps reading_220_def start_succeeds_def)
  have r0: "reachable (init reading_220)"
    by (rule reachable_init)
  have i0: "status (init reading_220) \<noteq> RECORDING" "analyzer (init reading_220) = reading_220"
    "nextHandle (init reading_220) = 1"
    by (simp_all add: init_def)
  from tick_while_recording
    [of "step (StartClick start_succeeds) (init reading_220)" "init reading_220"]
    r recording_after_start a r0 i0
  show ?thesis
    by (simp add: reading_220_def)
qed

subsection \<open>Leaving the recording state\<close>

lemma cancelled_setStatus:
  assumes "animationRef s = Some h" and "h \<noteq> 0" and "status s \<noteq> v" and "v \<noteq> RECORDING"
  shows "CancelAnimationFrame h \<in> set (drop (length (trace s)) (trace (setStatus v s)))"
  using assms by (simp add: trace_setStatus_idle cancel_calls_def)

lemma cancelled_startAnalysisFlow:
  assumes "animationRef s = Some h" and "h \<noteq> 0" and "status s = RECORDING"
    and "status (snd (startAnalysisFlow env s)) \<noteq> RECORDING"
  shows "CancelAnimationFrame h \<in> set (drop (length (trace s)) (trace (snd (startAnalysisFlow env s))))"
  using assms
  by (auto simp: startAnalysisFlow_def startTry_def speakInstructions_def startCatch_def Let_def trace_setStatus_idle cancel_calls_def
      split: sum.splits option.splits prod.splits SpeakOutcome.splits)

lemma cancelled_stopRecording:
  assumes "animationRef s = Some h" and "h \<noteq> 0" and "status s = RECORDING"
    and "status (stopRecording img s) \<noteq> RECORDING"
  shows "CancelAnimationFrame h \<in> set (drop (length (trace s)) (trace (stopRecording img s)))"
  using assms
  by (auto simp: stopRecording_def Let_def trace_setStatus_idle cancel_calls_def
      split: option.splits if_splits)

lemma cancelled_recorderStopped:
  assumes "animationRef s = Some h" and "h \<noteq> 0" and "status s = RECORDING"
    and "status (recorderStopped i env s) \<noteq> RECORDING"
  shows "CancelAnimationFrame h \<in> set (drop (length (trace s)) (trace (recorderStopped i env s)))"
  using assms
  by (auto simp: recorderStopped_def Let_def performGeminiAnalysis_eq trace_setStatus_idle
      cancel_calls_def split: option.splits if_splits)

lemma status_animationFrame:
  assumes "reachable s" and "status s = RECORDING"
  shows "status (animationFrame s) = RECORDING"
proof -
  from assms obtain h where "frames s = [(h, RECORDING)]"
    by (rule recording_frames)
  with assms(2) show ?thesis
    by (simp add: animationFrame_def updateMetrics_RECORDING)
qed

lemma cancelled_step:
  assumes "reachable s" and "status s = RECORDING" and "status (step e s) \<noteq> RECORDING"
    and "frames s = [(h, cb)]"
  shows "CancelAnimationFrame h \<in> set (drop (length (trace s)) (trace (step e s)))"
proof -
  from assms(1,2) obtain h' where "frames s = [(h', RECORDING)]" "animationRef s = Some h'" "0 < h'"
    by (rule recording_frames)
  with assms(4) have ref: "animationRef s = Some h" and pos: "h \<noteq> 0"
    by simp_all
  show ?thesis
  proof (cases e)
    case (Audio a)
    with assms(2,3) show ?thesis by simp
  next
    case Frame
    with status_animationFrame[OF assms(1,2)] assms(3) show ?thesis by simp
  next
    case (StartClick env)
    with cancelled_startAnalysisFlow[OF ref pos assms(2)] assms(3) show ?thesis by simp
  next
    case (StopClick img)
    with cancelled_stopRecording[OF ref pos assms(2)] assms(3) show ?thesis by simp
  next
    case (DataAvailable d)
    with assms(2,3) show ?thesis by (auto simp: ondataavailable_def split: if_splits)
  next
    case (RecorderStopEvent i env)
    with cancelled_recorderStopped[OF ref pos assms(2)] assms(3) show ?thesis by simp
  next
    case ClearResult
    with assms(2,3) show ?thesis by simp
  qed
qed


text \<open>
  Claim C2. When an event takes a reachable state out of \<open>RECORDING\<close> (a stop request
  does), the tick that was scheduled is cancelled: \<open>cancelAnimationFrame\<close> is called on
  its handle during that event, no callback is pending afterwards, and a rendering frame
  in the state after the event runs no tick and schedules none, it leaves the state as
  it is. The commit that follows the change of status is taken to happen before the next
  rendering frame.
\<close>

theorem stop_cancels_tick:
  assumes "reachable s" and "status s = RECORDING" and "status (step e s) \<noteq> RECORDING"
  shows "map snd (frames s) = [RECORDING] \<and>
         CancelAnimationFrame (fst (hd (frames s))) \<in>
           set (drop (length (trace s)) (trace (step e s))) \<and>
         frames (step e s) = [] \<and>
         step Frame (step e s) = step e s"
proof -
  from assms(1,2) obtain h where h: "frames s = [(h, RECORDING)]"
    by (rule recording_frames)
  have "reachable (step e s)"
    using assms(1) by (rule reachable_step)
  then have "frames (step e s) = []"
    using assms(3) by (rule idle_no_frames)
  with h cancelled_step[OF assms h] show ?thesis
    by (simp add: animationFrame_def)
qed

theorem stop_cancels_tick_witness:
  "reachable (step (StartClick start_succeeds) (init reading_220)) \<and>
   status (step (StartClick start_succeeds) (init reading_220)) = RECORDING \<and>
   status (step (StopClick None) (step (StartClick start_succeeds) (init reading_220))) =
     PROCESSING \<and>
   frames (step (StartClick start_succeeds) (init reading_220)) = [(1, RECORDING)] \<and>
   CancelAnimationFrame 1 \<in>
     set (drop (length (trace (step (StartClick start_succeeds) (init reading_220))))
       (trace (step (StopClick None) (step (StartClick start_succeeds) (init reading_220))))) \<and>
   frames (step (StopClick None) (step (StartClick start_succeeds) (init reading_220))) = []"
proof -
  have r: "reachable (step (StartClick start_succeeds) (init reading_220))"
    by (intro reachable_step reachable_init)
  have p: "status (step (StopClick None) (step (StartClick start_succeeds) (init reading_220))) =
     PROCESSING"
    by (simp add: run_simps reading_220_def start_succeeds_def)
  have f: "frames (step (StartClick start_succeeds) (init reading_220)) = [(1, RECORDING)]"
    by (simp add: run_simps reading_220_def start_succeeds_def)
  from p have n: "status (step (StopClick None)
      (step (StartClick start_succeeds) (init reading_220))) \<noteq> RECORDING"
    by simp
  from stop_cancels_tick[OF r recording_after_start n] r recording_after_start p f
  show ?thesis
    by simp
qed

subsection \<open>The metrics while not recording\<close>



lemma ticks_update [simp]:
  "ticks (s\<lparr>status := v\<rparr>) = ticks s"
  "ticks (s\<lparr>geminiAnalysis := g\<rparr>) = ticks s"
  "ticks (s\<lparr>recorders := rs\<rparr>) = ticks s"
  "ticks (s\<lparr>mediaRecorderRef := m\<rparr>) = ticks s"
  "ticks (s\<lparr>chunksRef := cs\<rparr>) = ticks s"
  "ticks (s\<lparr>analyzer := a\<rparr>) = ticks s"
  "ticks (s\<lparr>frames := fs\<rparr>) = ticks s"
  by (simp_all add: ticks_def)

lemma ticks_cancelPending [simp]: "ticks (cancelPending s) = ticks s"
  by (simp add: ticks_def trace_cancelPending cancel_calls_def split: option.splits)


lemma ticks_updateMetrics:
  "ticks (updateMetrics st s) = (if st = RECORDING then Suc (ticks s) else ticks s)"
  by (simp add: updateMetrics_RECORDING ticks_def) (simp add: updateMetrics_def)

lemma ticks_setStatus:
  "ticks (setStatus v s) =
     (if v = RECORDING \<and> status s \<noteq> RECORDING then Suc (ticks s) else ticks s)"
  by (simp add: setStatus_def statusEffect_def ticks_updateMetrics)

lemmas count_ticks =
  ticks_def ticks_setStatus[unfolded ticks_def] ticks_updateMetrics[unfolded ticks_def]

lemma ticks_startTry_thrown:
  "startTry env s = (Some e, s') \<Longrightarrow>
   ticks s' = ticks s \<and> metrics s' = metrics s \<and> status s' = status s"
  by (auto simp: startTry_def speakInstructions_def Let_def count_ticks
      split: sum.splits option.splits prod.splits SpeakOutcome.splits)











subsection \<open>Clarity\<close>

lemma clarity_step: "clarity (metrics s) = 0 \<Longrightarrow> clarity (metrics (step e s)) = 0"
proof (cases e)
  case Frame
  assume "clarity (metrics s) = 0"
  with Frame show ?thesis
    by (simp add: animationFrame_def updateMetrics_def requestAnimationFrame_def Let_def
        split: list.splits)
next
  case (StartClick env)
  assume "clarity (metrics s) = 0"
  with StartClick show ?thesis
    by (cases "speak env") (simp_all add: startAnalysisFlow_def startTry_def speakInstructions_def Let_def startCatch_def metrics_setStatus
        split: sum.splits option.splits prod.splits SpeakOutcome.splits)
qed (simp_all add: metrics_stopRecording metrics_recorderStopped ondataavailable_def)

text \<open>
  Claim C9. In every reachable state, so after every tick and in every status, the
  clarity of the published metrics is exactly 0: the first render publishes 0 and
  \<open>updateMetrics\<close>, the only writer, writes the constant 0 whatever the analyzer reads.
\<close>

theorem clarity_always_zero: "reachable s \<Longrightarrow> clarity (metrics s) = 0"
  by (induction rule: reachable.induct) (simp_all add: init_def clarity_step)

theorem clarity_always_zero_witness:
  "reachable (steps [StartClick start_succeeds, Frame] (init reading_220)) \<and>
   metrics (steps [StartClick start_succeeds, Frame] (init reading_220)) =
     \<lparr>pitch = 220, volume = - 20, clarity = 0\<rparr> \<and>
   clarity (metrics (steps [StartClick start_succeeds, Frame] (init reading_220))) = 0"
proof -
  have r: "reachable (steps [StartClick start_succeeds, Frame] (init reading_220))"
    by (intro reachable_steps reachable_init)
  have m: "metrics (steps [StartClick start_succeeds, Frame] (init reading_220)) =
     \<lparr>pitch = 220, volume = - 20, clarity = 0\<rparr>"
    by (simp add: run_simps reading_220_def start_succeeds_def)
  from r m clarity_always_zero[OF r] show ?thesis
    by simp
qed

subsection \<open>A start that fails\<close>

lemma start_traces:
  "trace (step (StartClick start_succeeds) (init reading_220)) =
     [AnalyzerStart, Await, SpeechCancel, SpeechSpeak, Await, SpeechCancel,
      NewMediaRecorder 0, RecorderStart 0,
      AnalyzerGetPitch, AnalyzerGetVolume, AnalyzerGetFrequencyData, RequestAnimationFrame 1]"
  "trace (step (StartClick (start_succeeds\<lparr>speak := SpeakThrows err\<rparr>)) (init reading_220)) =
     [AnalyzerStart, Await, SpeechCancel, SpeechSpeak, ConsoleError, SpeechCancel, Await,
      NewMediaRecorder 0, RecorderStart 0,
      AnalyzerGetPitch, AnalyzerGetVolume, AnalyzerGetFrequencyData, RequestAnimationFrame 1]"
  "trace (step (StartClick (start_succeeds\<lparr>speak := SpeechUnavailable err\<rparr>))
      (init reading_220)) =
     [AnalyzerStart, Await, SpeechCancel, Await, ConsoleError, Alert startErrorText]"
  by (simp_all add: run_simps reading_220_def start_succeeds_def)

text \<open>
  Claim C4, as stated, fails: when \<open>analyzer.start()\<close> rejects, the promise that
  \<open>startAnalysisFlow\<close> returns to its caller is fulfilled, not rejected with the failure,
  and the report (\<open>console.error\<close>, the alert) is made after the \<open>await\<close>, in a later task
  than the call.
\<close>

theorem start_failure_not_surfaced_to_caller:
  "analyzer_start start_denied = Inl (Error ''NotAllowedError'') \<and>
   fst (startAnalysisFlow start_denied (init reading_220)) = Inr () \<and>
   fst (startAnalysisFlow start_denied (init reading_220)) \<noteq> Inl (Error ''NotAllowedError'') \<and>
   trace (snd (startAnalysisFlow start_denied (init reading_220))) =
     [AnalyzerStart, Await, ConsoleError, Alert startErrorText]"
  by (simp add: run_simps startTry_def speakInstructions_def reading_220_def start_denied_def)

text \<open>
  Claim C4, amended. When \<open>analyzer.start()\<close> rejects (no audio device, permission
  denied), the start flow catches the rejection itself after the \<open>await\<close>: it reports the
  failure by \<open>console.error\<close> and an alert, and the promise it returns to its caller is
  fulfilled. It sets the status to \<open>IDLE\<close> and makes no other call than these (and the
  cancelling of a stale frame handle when the status was not \<open>IDLE\<close>): no recorder is
  created or started, the recorder ref and the chunks are untouched, and neither the
  metrics nor the frequency data are published.
\<close>

theorem start_failure_leaves_idle:
  assumes "analyzer_start env = Inl err"
  shows "fst (startAnalysisFlow env s) = Inr () \<and>
         status (snd (startAnalysisFlow env s)) = IDLE \<and>
         trace (snd (startAnalysisFlow env s)) =
           trace s @ [AnalyzerStart, Await, ConsoleError, Alert startErrorText] @
           (if status s = IDLE then [] else cancel_calls s @ cancel_calls s) \<and>
         recorders (snd (startAnalysisFlow env s)) = recorders s \<and>
         mediaRecorderRef (snd (startAnalysisFlow env s)) = mediaRecorderRef s \<and>
         chunksRef (snd (startAnalysisFlow env s)) = chunksRef s \<and>
         metrics (snd (startAnalysisFlow env s)) = metrics s \<and>
         frequencyData (snd (startAnalysisFlow env s)) = frequencyData s"
  using assms
  by (simp add: startAnalysisFlow_def startTry_def startCatch_def Let_def metrics_setStatus
      trace_setStatus_idle frequencyData_setStatus)

theorem start_failure_leaves_idle_witness:
  "analyzer_start start_denied = Inl (Error ''NotAllowedError'') \<and>
   startAnalysisFlow start_denied (init reading_220) =
     (Inr (),
      (init reading_220)
        \<lparr>trace := [AnalyzerStart, Await, ConsoleError, Alert startErrorText]\<rparr>)"
proof -
  have a: "analyzer_start start_denied = Inl (Error ''NotAllowedError'')"
    by (simp add: start_denied_def)
  have g: "geminiAnalysis (snd (startAnalysisFlow start_denied (init reading_220))) = None"
    "animationRef (snd (startAnalysisFlow start_denied (init reading_220))) = None"
    "analyzer (snd (startAnalysisFlow start_denied (init reading_220))) = reading_220"
    "frames (snd (startAnalysisFlow start_denied (init reading_220))) = []"
    "nextHandle (snd (startAnalysisFlow start_denied (init reading_220))) = 1"
    by (simp_all add: startAnalysisFlow_def startTry_def startCatch_def setStatus_def Let_def
        init_def start_denied_def)
  have p: "startAnalysisFlow start_denied (init reading_220) =
      (fst (startAnalysisFlow start_denied (init reading_220)),
       snd (startAnalysisFlow start_denied (init reading_220)))"
    by simp
  from start_failure_leaves_idle[OF a, of "init reading_220"] g a
  have "fst (startAnalysisFlow start_denied (init reading_220)) = Inr ()"
    and "snd (startAnalysisFlow start_denied (init reading_220)) =
      (init reading_220)\<lparr>trace := [AnalyzerStart, Await, ConsoleError, Alert startErrorText]\<rparr>"
    by (simp_all add: init_def)
  with p a show ?thesis
    by simp
qed

subsection \<open>The still image of a stop\<close>

lemma stopped_with_update [simp]:
  "stopped_with i img (s\<lparr>trace := tr\<rparr>) = stopped_with i img s"
  "stopped_with i img (s\<lparr>geminiAnalysis := g\<rparr>) = stopped_with i img s"
  "stopped_with i img (s\<lparr>mediaRecorderRef := m\<rparr>) = stopped_with i img s"
  "stopped_with i img (s\<lparr>chunksRef := cs\<rparr>) = stopped_with i img s"
  "stopped_with i img (s\<lparr>analyzer := a\<rparr>) = stopped_with i img s"
  "stopped_with i img (setStatus v s) = stopped_with i img s"
  by (simp_all add: stopped_with_def)

lemma stopped_with_startCatch [simp]: "stopped_with i img (startCatch s) = stopped_with i img s"
  by (simp add: startCatch_def)

lemma stopped_with_startAnalysisFlow:
  "stopped_with i img s \<Longrightarrow> stopped_with i img (snd (startAnalysisFlow env s))"
  by (auto simp: startAnalysisFlow_def startTry_def speakInstructions_def startCatch_def Let_def stopped_with_def js_index_def
      nth_append split: sum.splits option.splits prod.splits SpeakOutcome.splits if_splits)

lemma stopped_with_stopRecording:
  "stopped_with i img s \<Longrightarrow> stopped_with i img (stopRecording img' s)"
  by (auto simp: stopRecording_def Let_def stopped_with_def js_index_def nth_list_update
      split: option.splits if_splits)

lemma stopped_with_recorderStopped:
  "stopped_with i img s \<Longrightarrow> stopped_with i img (recorderStopped j env s)"
  by (auto simp: recorderStopped_def performGeminiAnalysis_def Let_def stopped_with_def js_index_def
      nth_list_update split: option.splits if_splits sum.splits)

lemma stopped_with_animationFrame:
  "stopped_with i img (animationFrame s) = stopped_with i img s"
  by (simp add: animationFrame_def updateMetrics_def requestAnimationFrame_def Let_def
      stopped_with_def split: list.splits)

lemma stopped_with_step: "stopped_with i img s \<Longrightarrow> stopped_with i img (step e s)"
  by (cases e) (simp_all add: stopped_with_startAnalysisFlow stopped_with_stopRecording
      stopped_with_recorderStopped stopped_with_animationFrame ondataavailable_def)

lemma stopped_with_steps: "stopped_with i img s \<Longrightarrow> stopped_with i img (steps es s)"
  by (induction es arbitrary: s) (simp_all add: stopped_with_step)

lemma stopRecording_active:
  assumes "mediaRecorderRef s = Some i" and "js_index (recorders s) i = Some r"
    and "rec_state r \<noteq> inactive"
  shows "trace (stopRecording img s) =
           trace s @ [SpeechCancel, GetCanvasImage, RecorderStop i, AnalyzerStop] @
           (if status s = PROCESSING then [] else cancel_calls s @ cancel_calls s)"
    and "stopped_with i img (stopRecording img s)"
    and "stop_queued i (stopRecording img s)"
    and "status (stopRecording img s) = PROCESSING"
  using assms
  by (auto simp: stopRecording_def Let_def trace_setStatus_idle stopped_with_def stop_queued_def
      js_index_def split: if_splits)

lemma stopRecording_again:
  assumes "mediaRecorderRef s = Some i" and "js_index (recorders s) i = Some r"
    and "rec_state r \<noteq> inactive"
  shows "stopRecording img2 (stopRecording img s) =
           (stopRecording img s)\<lparr>trace := trace (stopRecording img s) @ [SpeechCancel]\<rparr>"
proof -
  have "mediaRecorderRef (stopRecording img s) = Some i"
    using assms by (simp add: stopRecording_def Let_def)
  moreover have "stopped_with i img (stopRecording img s)"
    using assms by (rule stopRecording_active(2))
  ultimately show ?thesis
    by (simp add: stopRecording_def[of img2] Let_def stopped_with_def split: option.splits)
qed

lemma recorderStopped_fires:
  assumes "stopped_with i img s" and "stop_queued i s"
  shows "trace (recorderStopped i env s) =
           trace s @
           [AnalyzeAudio (newBlob (chunksRef s) ''audio/webm'') (orUndefined img), Await] @
           (if status s = COMPLETED then [] else cancel_calls s @ cancel_calls s)"
    and "geminiAnalysis (recorderStopped i env s) =
           Some (resolvedText env (newBlob (chunksRef s) ''audio/webm'') (orUndefined img))"
  using assms
  by (auto simp: recorderStopped_def Let_def stopped_with_def stop_queued_def
      performGeminiAnalysis_eq trace_setStatus_idle split: option.splits)

lemma count_cancel_calls [simp]: "count_list (cancel_calls s) GetCanvasImage = 0"
  by (simp add: cancel_calls_def split: option.splits)

lemma resolvedText_with_image:
  assumes "truthy (API_KEY env)" and "readAsDataURL env b = Inr url" and "x \<noteq> []"
  shows "resolvedText env b (Some x) =
     (case generateContent env
        \<lparr>model = ''gemini-2.5-flash'',
         parts = [InlineData (blob_type b) (js_index (split_comma url) 1),
                  InlineData ''image/png'' (Some (stripImageHeader x)),
                  TextPart promptAudioAndImage],
         systemInstruction = SYSTEM_PROMPT,
         temperature = 4 / 10\<rparr> of
        Inl e \<Rightarrow> connectErrorText
      | Inr None \<Rightarrow> noAnalysisText
      | Inr (Some t) \<Rightarrow> if t = [] then noAnalysisText else t)"
  using assms
  by (simp add: resolvedText_def analyzeBody_def blobToBase64_def geminiRequest_def
      buildParts_def orUndefined_def truthy_def split: sum.splits option.splits)

lemma resolvedText_without_image:
  assumes "truthy (API_KEY env)" and "readAsDataURL env b = Inr url"
  shows "resolvedText env b None =
     (case generateContent env
        \<lparr>model = ''gemini-2.5-flash'',
         parts = [InlineData (blob_type b) (js_index (split_comma url) 1),
                  TextPart promptAudioOnly],
         systemInstruction = SYSTEM_PROMPT,
         temperature = 4 / 10\<rparr> of
        Inl e \<Rightarrow> connectErrorText
      | Inr None \<Rightarrow> noAnalysisText
      | Inr (Some t) \<Rightarrow> if t = [] then noAnalysisText else t)"
  using assms
  by (simp add: resolvedText_def analyzeBody_def blobToBase64_def geminiRequest_def
      buildParts_def orUndefined_def truthy_def split: sum.splits option.splits)

text \<open>
  Claim C6. A stop request on a recorder that is not inactive calls \<open>getCanvasImage\<close>
  exactly once, inside the handler of the request and before the recorder and the
  analyzer are stopped and the pending tick is cancelled; a stop request repeated after
  it captures nothing. The image that was returned stays in the closure of the
  recorder's \<open>onstop\<close> handler whatever happens afterwards. When the recorder's \<open>stop\<close>
  event fires and the captured image is a string \<open>x\<close> that is not empty,
  \<open>analyzeAudioWithGemini\<close> is called with the blob of the chunks and \<open>x\<close> itself, and
  (with an API key and a blob that can be read) the request sent to the remote model
  carries the audio part, the image part made of \<open>x\<close> without its header, and the
  audio-and-image prompt; the answer to that request becomes the analysis shown. When
  the capture returned \<open>null\<close> or an empty string, the call has no image and the request
  carries the audio part and the audio-only prompt.
\<close>

theorem stop_captures_image_once:
  assumes "mediaRecorderRef s = Some i" and "js_index (recorders s) i = Some r"
    and "rec_state r \<noteq> inactive"
  shows "trace (stopRecording img s) =
           trace s @ [SpeechCancel, GetCanvasImage, RecorderStop i, AnalyzerStop] @
           (if status s = PROCESSING then [] else cancel_calls s @ cancel_calls s) \<and>
         count_list (drop (length (trace s)) (trace (stopRecording img s))) GetCanvasImage = 1 \<and>
         stopRecording img2 (stopRecording img s) =
           (stopRecording img s)\<lparr>trace := trace (stopRecording img s) @ [SpeechCancel]\<rparr> \<and>
         stop_queued i (stopRecording img s) \<and>
         stopped_with i img (steps es (stopRecording img s)) \<and>
         (let s2 = steps es (stopRecording img s);
              audioBlob = newBlob (chunksRef s2) ''audio/webm''
          in stop_queued i s2 \<longrightarrow>
             (img = Some x \<and> x \<noteq> [] \<longrightarrow>
                trace (recorderStopped i env s2) =
                  trace s2 @ [AnalyzeAudio audioBlob (Some x), Await] @
                  (if status s2 = COMPLETED then [] else cancel_calls s2 @ cancel_calls s2) \<and>
                (truthy (API_KEY env) \<and> readAsDataURL env audioBlob = Inr url \<longrightarrow>
                   geminiAnalysis (recorderStopped i env s2) =
                     Some (case generateContent env
                             \<lparr>model = ''gemini-2.5-flash'',
                              parts = [InlineData ''audio/webm'' (js_index (split_comma url) 1),
                                       InlineData ''image/png'' (Some (stripImageHeader x)),
                                       TextPart promptAudioAndImage],
                              systemInstruction = SYSTEM_PROMPT,
                              temperature = 4 / 10\<rparr> of
                             Inl e \<Rightarrow> connectErrorText
                           | Inr None \<Rightarrow> noAnalysisText
                           | Inr (Some t) \<Rightarrow> if t = [] then noAnalysisText else t))) \<and>
             (img = None \<or> img = Some [] \<longrightarrow>
                trace (recorderStopped i env s2) =
                  trace s2 @ [AnalyzeAudio audioBlob None, Await] @
                  (if status s2 = COMPLETED then [] else cancel_calls s2 @ cancel_calls s2) \<and>
                (truthy (API_KEY env) \<and> readAsDataURL env audioBlob = Inr url \<longrightarrow>
                   geminiAnalysis (recorderStopped i env s2) =
                     Some (case generateContent env
                             \<lparr>model = ''gemini-2.5-flash'',
                              parts = [InlineData ''audio/webm'' (js_index (split_comma url) 1),
                                       TextPart promptAudioOnly],
                              systemInstruction = SYSTEM_PROMPT,
                              temperature = 4 / 10\<rparr> of
                             Inl e \<Rightarrow> connectErrorText
                           | Inr None \<Rightarrow> noAnalysisText
                           | Inr (Some t) \<Rightarrow> if t = [] then noAnalysisText else t))))"
proof -
  note stop = stopRecording_active[OF assms, of img]
  define s2 where "s2 = steps es (stopRecording img s)"
  define audioBlob where "audioBlob = newBlob (chunksRef s2) ''audio/webm''"
  have ty: "blob_type audioBlob = ''audio/webm''"
    by (simp add: audioBlob_def newBlob_def)
  have later: "stopped_with i img s2"
    unfolding s2_def using stop(2) by (rule stopped_with_steps)
  have once: "count_list (drop (length (trace s)) (trace (stopRecording img s))) GetCanvasImage = 1"
    by (simp add: stop(1))
  have fires: "stop_queued i s2 \<Longrightarrow>
      trace (recorderStopped i env s2) =
        trace s2 @ [AnalyzeAudio audioBlob (orUndefined img), Await] @
        (if status s2 = COMPLETED then [] else cancel_calls s2 @ cancel_calls s2) \<and>
      geminiAnalysis (recorderStopped i env s2) =
        Some (resolvedText env audioBlob (orUndefined img))"
    unfolding audioBlob_def using recorderStopped_fires[OF later, of env] by simp
  have with_image: "stop_queued i s2 \<longrightarrow> img = Some x \<and> x \<noteq> [] \<longrightarrow>
      trace (recorderStopped i env s2) =
        trace s2 @ [AnalyzeAudio audioBlob (Some x), Await] @
        (if status s2 = COMPLETED then [] else cancel_calls s2 @ cancel_calls s2) \<and>
      (truthy (API_KEY env) \<and> readAsDataURL env audioBlob = Inr url \<longrightarrow>
         geminiAnalysis (recorderStopped i env s2) =
           Some (case generateContent env
                   \<lparr>model = ''gemini-2.5-flash'',
                    parts = [InlineData ''audio/webm'' (js_index (split_comma url) 1),
                             InlineData ''image/png'' (Some (stripImageHeader x)),
                             TextPart promptAudioAndImage],
                    systemInstruction = SYSTEM_PROMPT,
                    temperature = 4 / 10\<rparr> of
                   Inl e \<Rightarrow> connectErrorText
                 | Inr None \<Rightarrow> noAnalysisText
                 | Inr (Some t) \<Rightarrow> if t = [] then noAnalysisText else t))"
    using fires resolvedText_with_image[of env audioBlob url x] ty
    by (auto simp: orUndefined_def truthy_def)
  have without_image: "stop_queued i s2 \<longrightarrow> img = None \<or> img = Some [] \<longrightarrow>
      trace (recorderStopped i env s2) =
        trace s2 @ [AnalyzeAudio audioBlob None, Await] @
        (if status s2 = COMPLETED then [] else cancel_calls s2 @ cancel_calls s2) \<and>
      (truthy (API_KEY env) \<and> readAsDataURL env audioBlob = Inr url \<longrightarrow>
         geminiAnalysis (recorderStopped i env s2) =
           Some (case generateContent env
                   \<lparr>model = ''gemini-2.5-flash'',
                    parts = [InlineData ''audio/webm'' (js_index (split_comma url) 1),
                             TextPart promptAudioOnly],
                    systemInstruction = SYSTEM_PROMPT,
                    temperature = 4 / 10\<rparr> of
                   Inl e \<Rightarrow> connectErrorText
                 | Inr None \<Rightarrow> noAnalysisText
                 | Inr (Some t) \<Rightarrow> if t = [] then noAnalysisText else t))"
    using fires resolvedText_without_image[of env audioBlob url] ty
    by (auto simp: orUndefined_def truthy_def)
  from with_image without_image
  have last: "let s2 = steps es (stopRecording img s);
              audioBlob = newBlob (chunksRef s2) ''audio/webm''
          in stop_queued i s2 \<longrightarrow>
             (img = Some x \<and> x \<noteq> [] \<longrightarrow>
                trace (recorderStopped i env s2) =
                  trace s2 @ [AnalyzeAudio audioBlob (Some x), Await] @
                  (if status s2 = COMPLETED then [] else cancel_calls s2 @ cancel_calls s2) \<and>
                (truthy (API_KEY env) \<and> readAsDataURL env audioBlob = Inr url \<longrightarrow>
                   geminiAnalysis (recorderStopped i env s2) =
                     Some (case generateContent env
                             \<lparr>model = ''gemini-2.5-flash'',
                              parts = [InlineData ''audio/webm'' (js_index (split_comma url) 1),
                                       InlineData ''image/png'' (Some (stripImageHeader x)),
                                       TextPart promptAudioAndImage],
                              systemInstruction = SYSTEM_PROMPT,
                              temperature = 4 / 10\<rparr> of
                             Inl e \<Rightarrow> connectErrorText
                           | Inr None \<Rightarrow> noAnalysisText
                           | Inr (Some t) \<Rightarrow> if t = [] then noAnalysisText else t))) \<and>
             (img = None \<or> img = Some [] \<longrightarrow>
                trace (recorderStopped i env s2) =
                  trace s2 @ [AnalyzeAudio audioBlob None, Await] @
                  (if status s2 = COMPLETED then [] else cancel_calls s2 @ cancel_calls s2) \<and>
                (truthy (API_KEY env) \<and> readAsDataURL env audioBlob = Inr url \<longrightarrow>
                   geminiAnalysis (recorderStopped i env s2) =
                     Some (case generateContent env
                             \<lparr>model = ''gemini-2.5-flash'',
                              parts = [InlineData ''audio/webm'' (js_index (split_comma url) 1),
                                       TextPart promptAudioOnly],
                              systemInstruction = SYSTEM_PROMPT,
                              temperature = 4 / 10\<rparr> of
                             Inl e \<Rightarrow> connectErrorText
                           | Inr None \<Rightarrow> noAnalysisText
                           | Inr (Some t) \<Rightarrow> if t = [] then noAnalysisText else t)))"
    unfolding Let_def s2_def[symmetric] audioBlob_def[symmetric] by blast
  from stop(1,3) later[unfolded s2_def] once stopRecording_again[OF assms, of img2 img] last
  show ?thesis
    by blast
qed

theorem stop_captures_image_once_witness:
  "mediaRecorderRef (step (StartClick start_succeeds) (init reading_220)) = Some 0 \<and>
   js_index (recorders (step (StartClick start_succeeds) (init reading_220))) 0 =
     Some \<lparr>rec_state = recording, rec_stream = 0, stop_pending = False, onstop = None\<rparr> \<and>
   stop_queued 0 (steps [DataAvailable webm_chunk, Frame, StopClick None]
     (stopRecording png_capture (step (StartClick start_succeeds) (init reading_220)))) \<and>
   png_capture = Some ''data:image/png;base64,iVBORw0KGgo='' \<and>
   truthy (API_KEY gemini_echo) \<and>
   readAsDataURL gemini_echo webm_chunk = Inr ''data:audio/webm;base64,GkXfow=='' \<and>
   geminiAnalysis (recorderStopped 0 gemini_echo
     (steps [DataAvailable webm_chunk, Frame, StopClick None]
       (stopRecording png_capture (step (StartClick start_succeeds) (init reading_220))))) =
     Some ''audio/webm:GkXfow==;image/png:iVBORw0KGgo=;'' \<and>
   stop_queued 0 (steps [DataAvailable webm_chunk]
     (stopRecording None (step (StartClick start_succeeds) (init reading_220)))) \<and>
   geminiAnalysis (recorderStopped 0 gemini_echo
     (steps [DataAvailable webm_chunk]
       (stopRecording None (step (StartClick start_succeeds) (init reading_220))))) =
     Some ''audio/webm:GkXfow==;''"
proof -
  have m: "mediaRecorderRef (step (StartClick start_succeeds) (init reading_220)) = Some 0"
    by (simp add: run_simps reading_220_def start_succeeds_def)
  have j: "js_index (recorders (step (StartClick start_succeeds) (init reading_220))) 0 =
     Some \<lparr>rec_state = recording, rec_stream = 0, stop_pending = False, onstop = None\<rparr>"
    by (simp add: run_simps reading_220_def start_succeeds_def)
  have a: "rec_state \<lparr>rec_state = recording, rec_stream = 0, stop_pending = False,
     onstop = None\<rparr> \<noteq> inactive"
    by simp
  have q: "stop_queued 0 (steps [DataAvailable webm_chunk, Frame, StopClick None]
     (stopRecording png_capture (step (StartClick start_succeeds) (init reading_220))))"
    "stop_queued 0 (steps [DataAvailable webm_chunk]
     (stopRecording None (step (StartClick start_succeeds) (init reading_220))))"
    by (simp_all add: run_simps reading_220_def start_succeeds_def stop_queued_def
        ondataavailable_def webm_chunk_def)
  have c: "chunksRef (steps [DataAvailable webm_chunk, Frame, StopClick None]
     (stopRecording png_capture (step (StartClick start_succeeds) (init reading_220)))) =
     [webm_chunk]"
    "chunksRef (steps [DataAvailable webm_chunk]
     (stopRecording None (step (StartClick start_succeeds) (init reading_220)))) =
     [webm_chunk]"
    by (simp_all add: run_simps reading_220_def start_succeeds_def ondataavailable_def
        webm_chunk_def)
  have b: "newBlob [webm_chunk] ''audio/webm'' = webm_chunk"
    by (simp add: newBlob_def webm_chunk_def)
  have p: "png_capture = Some ''data:image/png;base64,iVBORw0KGgo=''"
    "''data:image/png;base64,iVBORw0KGgo='' \<noteq> []"
    by (simp_all add: png_capture_def)
  have k: "truthy (API_KEY gemini_echo)"
    "readAsDataURL gemini_echo webm_chunk = Inr ''data:audio/webm;base64,GkXfow==''"
    by (simp_all add: gemini_echo_def truthy_def webm_chunk_def)
  have g: "generateContent gemini_echo req = Inr (Some (concat (map part_summary (parts req))))"
    for req
    by (simp add: gemini_echo_def)
  have d: "js_index (split_comma ''data:audio/webm;base64,GkXfow=='') 1 = Some ''GkXfow==''"
    "stripImageHeader ''data:image/png;base64,iVBORw0KGgo='' = ''iVBORw0KGgo=''"
    by (simp_all add: js_index_def stripImageHeader_def starts_with_def)
  from stop_captures_image_once[OF m j a,
      where es = "[DataAvailable webm_chunk, Frame, StopClick None]"
        and img = png_capture and env = gemini_echo
        and x = "''data:image/png;base64,iVBORw0KGgo=''"
        and url = "''data:audio/webm;base64,GkXfow==''"]
    stop_captures_image_once[OF m j a,
      where es = "[DataAvailable webm_chunk]"
        and img = None and env = gemini_echo
        and url = "''data:audio/webm;base64,GkXfow==''"]
    m j q c b p k
  show ?thesis
    by (simp add: Let_def g d js_index_def stripImageHeader_def starts_with_def)
qed

subsection \<open>The request to the remote model\<close>

lemma orUndefined_simps [simp]:
  "orUndefined None = None"
  "orUndefined (Some []) = None"
  "s \<noteq> [] \<Longrightarrow> orUndefined (Some s) = Some s"
  by (simp_all add: orUndefined_def truthy_def)

lemma orUndefined_falsy: "\<not> truthy v \<Longrightarrow> orUndefined v = None"
  by (simp add: orUndefined_def)

lemma stripImageHeader_other:
  "\<not> starts_with ''data:image/png;base64,'' s \<Longrightarrow>
   \<not> starts_with ''data:image/jpg;base64,'' s \<Longrightarrow>
   \<not> starts_with ''data:image/jpeg;base64,'' s \<Longrightarrow> stripImageHeader s = s"
  by (simp add: stripImageHeader_def)

lemma stripImageHeader_png: "stripImageHeader (''data:image/png;base64,'' @ d) = d"
  by (simp add: stripImageHeader_def starts_with_def)

lemma stripImageHeader_jpg: "stripImageHeader (''data:image/jpg;base64,'' @ d) = d"
  by (simp add: stripImageHeader_def starts_with_def)

lemma stripImageHeader_jpeg: "stripImageHeader (''data:image/jpeg;base64,'' @ d) = d"
  by (simp add: stripImageHeader_def starts_with_def)

text \<open>
  Claim C7, as stated, fails on two inputs: an image whose data URL header is not one of
  \<open>png\<close>, \<open>jpg\<close>, \<open>jpeg\<close> keeps its header in the image part, and an image argument that
  is the empty string yields the request of an absent image.
\<close>

theorem other_header_kept_and_empty_image_dropped:
  "buildParts ''audio/webm'' (Some ''GkXfow=='') (Some ''data:image/webp;base64,UklGRg=='') =
     [InlineData ''audio/webm'' (Some ''GkXfow==''),
      InlineData ''image/png'' (Some ''data:image/webp;base64,UklGRg==''),
      TextPart promptAudioAndImage] \<and>
   buildParts ''audio/webm'' (Some ''GkXfow=='') (Some []) =
     [InlineData ''audio/webm'' (Some ''GkXfow==''), TextPart promptAudioOnly]"
  by (simp add: buildParts_def stripImageHeader_def starts_with_def)

text \<open>
  Claim C7, amended. When the image argument is absent or the empty string, the parts
  of the request are the audio part and the audio-only prompt. When it is a string that
  is not empty, they are the audio part, an image part of type \<open>image/png\<close> and the
  audio-and-image prompt; the data of the image part is the argument without a leading
  \<open>data:image/png;base64,\<close>, \<open>data:image/jpg;base64,\<close> or \<open>data:image/jpeg;base64,\<close>, and
  the argument unchanged when it starts with none of them. With an API key and a blob
  that can be read, the function sends this request and resolves with a text: the text
  of the response, a fixed text when the response has none, or the error text when the
  call fails.
\<close>

theorem request_parts:
  "(\<not> truthy img \<longrightarrow>
      buildParts ty a img = [InlineData ty a, TextPart promptAudioOnly]) \<and>
   (s \<noteq> [] \<longrightarrow>
      buildParts ty a (Some s) =
        [InlineData ty a, InlineData ''image/png'' (Some (stripImageHeader s)),
         TextPart promptAudioAndImage]) \<and>
   stripImageHeader (''data:image/png;base64,'' @ d) = d \<and>
   stripImageHeader (''data:image/jpg;base64,'' @ d) = d \<and>
   stripImageHeader (''data:image/jpeg;base64,'' @ d) = d \<and>
   (\<not> starts_with ''data:image/png;base64,'' s \<and>
    \<not> starts_with ''data:image/jpg;base64,'' s \<and>
    \<not> starts_with ''data:image/jpeg;base64,'' s \<longrightarrow> stripImageHeader s = s) \<and>
   parts (geminiRequest ty a img) = buildParts ty a img \<and>
   (truthy (API_KEY env) \<and> readAsDataURL env blob = Inr url \<longrightarrow>
      analyzeAudioWithGemini env blob img =
        Inr (case generateContent env
                    (geminiRequest (blob_type blob) (js_index (split_comma url) 1) img) of
               Inl e \<Rightarrow> connectErrorText
             | Inr text \<Rightarrow> (case orUndefined text of Some t \<Rightarrow> t | None \<Rightarrow> noAnalysisText)))"
proof (intro conjI impI)
  assume "\<not> truthy img"
  then show "buildParts ty a img = [InlineData ty a, TextPart promptAudioOnly]"
    by (simp add: buildParts_def orUndefined_falsy)
next
  assume "s \<noteq> []"
  then show "buildParts ty a (Some s) =
      [InlineData ty a, InlineData ''image/png'' (Some (stripImageHeader s)),
       TextPart promptAudioAndImage]"
    by (simp add: buildParts_def)
next
  assume "\<not> starts_with ''data:image/png;base64,'' s \<and>
    \<not> starts_with ''data:image/jpg;base64,'' s \<and>
    \<not> starts_with ''data:image/jpeg;base64,'' s"
  then show "stripImageHeader s = s"
    by (simp add: stripImageHeader_other)
next
  assume "truthy (API_KEY env) \<and> readAsDataURL env blob = Inr url"
  then show "analyzeAudioWithGemini env blob img =
      Inr (case generateContent env
                  (geminiRequest (blob_type blob) (js_index (split_comma url) 1) img) of
             Inl e \<Rightarrow> connectErrorText
           | Inr text \<Rightarrow> (case orUndefined text of Some t \<Rightarrow> t | None \<Rightarrow> noAnalysisText))"
    by (simp add: analyzeAudioWithGemini_def analyzeBody_def blobToBase64_def split: sum.splits)
next
  show "stripImageHeader (''data:image/png;base64,'' @ d) = d"
    by (rule stripImageHeader_png)
next
  show "stripImageHeader (''data:image/jpg;base64,'' @ d) = d"
    by (rule stripImageHeader_jpg)
next
  show "stripImageHeader (''data:image/jpeg;base64,'' @ d) = d"
    by (rule stripImageHeader_jpeg)
next
  show "parts (geminiRequest ty a img) = buildParts ty a img"
    by (simp add: geminiRequest_def)
qed

theorem request_parts_witness:
  "\<not> truthy None \<and>
   ''iVBORw0KGgo='' \<noteq> [] \<and>
   \<not> starts_with ''data:image/png;base64,'' ''iVBORw0KGgo='' \<and>
   \<not> starts_with ''data:image/jpg;base64,'' ''iVBORw0KGgo='' \<and>
   \<not> starts_with ''data:image/jpeg;base64,'' ''iVBORw0KGgo='' \<and>
   truthy (API_KEY gemini_answers) \<and>
   readAsDataURL gemini_answers webm_chunk = Inr ''data:audio/webm;base64,GkXfow=='' \<and>
   buildParts ''audio/webm'' (Some ''GkXfow=='') None =
     [InlineData ''audio/webm'' (Some ''GkXfow==''), TextPart promptAudioOnly] \<and>
   buildParts ''audio/webm'' (Some ''GkXfow=='') (Some ''iVBORw0KGgo='') =
     [InlineData ''audio/webm'' (Some ''GkXfow==''),
      InlineData ''image/png'' (Some ''iVBORw0KGgo=''), TextPart promptAudioAndImage] \<and>
   analyzeAudioWithGemini gemini_answers webm_chunk None = Inr ''Timbre aveludado.''"
proof -
  have h: "\<not> truthy None" "''iVBORw0KGgo='' \<noteq> []"
    "\<not> starts_with ''data:image/png;base64,'' ''iVBORw0KGgo=''"
    "\<not> starts_with ''data:image/jpg;base64,'' ''iVBORw0KGgo=''"
    "\<not> starts_with ''data:image/jpeg;base64,'' ''iVBORw0KGgo=''"
    "truthy (API_KEY gemini_answers)"
    "readAsDataURL gemini_answers webm_chunk = Inr ''data:audio/webm;base64,GkXfow==''"
    by (simp_all add: truthy_def starts_with_def gemini_answers_def)
  have g: "generateContent gemini_answers req = Inr (Some ''Timbre aveludado.'')" for req
    by (simp add: gemini_answers_def)
  from h request_parts[where img = None and s = "''iVBORw0KGgo=''" and ty = "''audio/webm''"
      and a = "Some ''GkXfow==''" and env = gemini_answers and blob = webm_chunk
      and url = "''data:audio/webm;base64,GkXfow==''"]
  show ?thesis
    by (simp add: g)
qed

subsection \<open>The promise of the analysis never rejects\<close>

text \<open>
  Claim C10. Whatever the environment, the blob and the image argument,
  \<open>analyzeAudioWithGemini\<close> never rejects. When the API key is missing or empty, when
  the blob cannot be read, and when the remote call fails, it resolves with the fixed
  text \<open>Erro ao conectar com a IA. Verifique sua chave de API ou tente novamente.\<close>
\<close>

theorem analyze_never_rejects:
  "analyzeAudioWithGemini env blob img \<noteq> Inl err \<and>
   (\<not> truthy (API_KEY env) \<longrightarrow> analyzeAudioWithGemini env blob img = Inr connectErrorText) \<and>
   (readAsDataURL env blob = Inl e \<longrightarrow>
      analyzeAudioWithGemini env blob img = Inr connectErrorText) \<and>
   (readAsDataURL env blob = Inr url \<and>
    generateContent env
      (geminiRequest (blob_type blob) (js_index (split_comma url) 1) img) = Inl e \<longrightarrow>
      analyzeAudioWithGemini env blob img = Inr connectErrorText)"
  by (simp add: analyzeAudioWithGemini_def analyzeBody_def blobToBase64_def split: sum.splits)


theorem analyze_never_rejects_witness:
  "\<not> truthy (API_KEY (gemini_answers\<lparr>API_KEY := None\<rparr>)) \<and>
   analyzeAudioWithGemini (gemini_answers\<lparr>API_KEY := None\<rparr>) webm_chunk png_capture =
     Inr connectErrorText \<and>
   readAsDataURL (gemini_answers\<lparr>readAsDataURL := \<lambda>b. Inl (Error ''NotReadableError'')\<rparr>)
     webm_chunk = Inl (Error ''NotReadableError'') \<and>
   analyzeAudioWithGemini
     (gemini_answers\<lparr>readAsDataURL := \<lambda>b. Inl (Error ''NotReadableError'')\<rparr>)
     webm_chunk png_capture = Inr connectErrorText \<and>
   readAsDataURL (gemini_answers\<lparr>generateContent := \<lambda>req. Inl (Error ''503'')\<rparr>) webm_chunk =
     Inr ''data:audio/webm;base64,GkXfow=='' \<and>
   generateContent (gemini_answers\<lparr>generateContent := \<lambda>req. Inl (Error ''503'')\<rparr>)
     (geminiRequest (blob_type webm_chunk)
        (js_index (split_comma ''data:audio/webm;base64,GkXfow=='') 1) png_capture) =
     Inl (Error ''503'') \<and>
   analyzeAudioWithGemini (gemini_answers\<lparr>generateContent := \<lambda>req. Inl (Error ''503'')\<rparr>)
     webm_chunk png_capture = Inr connectErrorText"
proof -
  have k: "\<not> truthy (API_KEY (gemini_answers\<lparr>API_KEY := None\<rparr>))"
    by (simp add: truthy_def)
  have r: "readAsDataURL (gemini_answers\<lparr>readAsDataURL := \<lambda>b. Inl (Error ''NotReadableError'')\<rparr>)
     webm_chunk = Inl (Error ''NotReadableError'')"
    by simp
  have u: "readAsDataURL (gemini_answers\<lparr>generateContent := \<lambda>req. Inl (Error ''503'')\<rparr>)
     webm_chunk = Inr ''data:audio/webm;base64,GkXfow==''"
    by (simp add: gemini_answers_def)
  have g: "generateContent (gemini_answers\<lparr>generateContent := \<lambda>req. Inl (Error ''503'')\<rparr>) req =
     Inl (Error ''503'')" for req
    by simp
  from k r u g
    analyze_never_rejects[where env = "gemini_answers\<lparr>API_KEY := None\<rparr>" and blob = webm_chunk
      and img = png_capture]
    analyze_never_rejects[where
      env = "gemini_answers\<lparr>readAsDataURL := \<lambda>b. Inl (Error ''NotReadableError'')\<rparr>"
      and blob = webm_chunk and img = png_capture and e = "Error ''NotReadableError''"]
    analyze_never_rejects[where
      env = "gemini_answers\<lparr>generateContent := \<lambda>req. Inl (Error ''503'')\<rparr>"
      and blob = webm_chunk and img = png_capture and e = "Error ''503''"
      and url = "''data:audio/webm;base64,GkXfow==''"]
  show ?thesis
    by simp
qed

subsection \<open>The spectrogram buffer scrolls first in, first out\<close>

lemma width_appendColumn [simp]: "width (appendColumn b c) = width b"
  by (simp add: appendColumn_def Let_def)

lemma width_foldl_appendColumn [simp]: "width (foldl appendColumn b cs) = width b"
  by (induction cs arbitrary: b) simp_all

lemma appendColumn_below:
  "length (columns b) < width b \<Longrightarrow> columns (appendColumn b c) = columns b @ [c]"
  by (simp add: appendColumn_def Let_def)

lemma appendColumn_full:
  "length (columns b) = width b \<Longrightarrow> 0 < width b \<Longrightarrow>
   columns (appendColumn b c) = tl (columns b) @ [c]"
  by (cases "columns b") (simp_all add: appendColumn_def Let_def)

lemma appendColumn_bounded: "length (columns (appendColumn b c)) \<le> width b"
  by (simp add: appendColumn_def Let_def)

lemma columns_appendColumn:
  "columns (appendColumn b c) = drop (Suc (length (columns b)) - width b) (columns b @ [c])"
  by (simp add: appendColumn_def Let_def)

lemma drop_snoc_trim:
  "drop (Suc (length (drop (length xs - w) xs)) - w) (drop (length xs - w) xs @ [c]) =
   drop (Suc (length xs) - w) (xs @ [c])"
proof (cases "length xs \<le> w")
  case True
  then show ?thesis by simp
next
  case False
  then have "length (drop (length xs - w) xs) = w"
    by simp
  moreover have "Suc (length xs) - w = Suc (length xs - w)"
    using False by simp
  ultimately show ?thesis
    by (cases w) (simp_all add: Suc_diff_le)
qed

lemma columns_foldl_appendColumn:
  "cs \<noteq> [] \<Longrightarrow>
   columns (foldl appendColumn b cs) =
     drop (length (columns b @ cs) - width b) (columns b @ cs)"
proof (induction cs rule: rev_induct)
  case Nil
  then show ?case by simp
next
  case (snoc c cs)
  show ?case
  proof (cases "cs = []")
    case True
    then show ?thesis
      by (simp add: columns_appendColumn)
  next
    case False
    with snoc.IH have "columns (foldl appendColumn b cs) =
        drop (length (columns b @ cs) - width b) (columns b @ cs)"
      by simp
    then have "columns (foldl appendColumn b (cs @ [c])) =
        drop (Suc (length (drop (length (columns b @ cs) - width b) (columns b @ cs))) - width b)
          (drop (length (columns b @ cs) - width b) (columns b @ cs) @ [c])"
      by (simp add: columns_appendColumn del: drop_append length_drop length_append)
    also have "\<dots> = drop (Suc (length (columns b @ cs)) - width b) ((columns b @ cs) @ [c])"
      by (rule drop_snoc_trim)
    finally show ?thesis
      by simp
  qed
qed

lemma columns_after_more_than_width:
  assumes "width b < length cs"
  shows "columns (foldl appendColumn b cs) = drop (length cs - width b) cs"
proof -
  from assms have "cs \<noteq> []"
    by auto
  then have "columns (foldl appendColumn b cs) =
      drop (length (columns b @ cs) - width b) (columns b @ cs)"
    by (rule columns_foldl_appendColumn)
  also have "length (columns b @ cs) - width b = length (columns b) + (length cs - width b)"
    using assms by simp
  finally show ?thesis
    by simp
qed

text \<open>
  Claim C5. For every buffer and every sequence of more columns than its width, after
  appending the sequence the buffer holds exactly \<open>width\<close> columns, and they are the last
  \<open>width\<close> columns of the sequence in their order: the oldest were evicted. Appending
  \<open>C 1\<close> to \<open>C (width + 2)\<close> leaves \<open>C 3\<close> to \<open>C (width + 2)\<close>.
\<close>

theorem appendColumn_fifo:
  assumes "width b < length cs"
  shows "columns (foldl appendColumn b cs) = drop (length cs - width b) cs \<and>
         length (columns (foldl appendColumn b cs)) = width b \<and>
         width (foldl appendColumn b cs) = width b \<and>
         columns (foldl appendColumn b (map C [1..<width b + 3])) = map C [3..<width b + 3]"
proof -
  have all: "columns (foldl appendColumn b cs) = drop (length cs - width b) cs"
    using assms by (rule columns_after_more_than_width)
  have "width b < length (map C [1..<width b + 3])"
    by simp
  then have "columns (foldl appendColumn b (map C [1..<width b + 3])) =
      drop (length (map C [1..<width b + 3]) - width b) (map C [1..<width b + 3])"
    by (rule columns_after_more_than_width)
  also have "length (map C [1..<width b + 3]) - width b = 2"
    by simp
  also have "drop 2 (map C [1..<width b + 3]) = map C [3..<width b + 3]"
  proof -
    have "drop 2 [1..<width b + 3] = [1 + 2..<width b + 3]"
      by (simp only: drop_upt)
    also have "(1::nat) + 2 = 3"
      by simp
    finally show ?thesis
      by (simp only: drop_map)
  qed
  finally have "columns (foldl appendColumn b (map C [1..<width b + 3])) =
      map C [3..<width b + 3]" .
  with all assms show ?thesis
    by simp
qed

theorem appendColumn_fifo_witness:
  "width \<lparr>width = 3, columns = [0::nat]\<rparr> < length [1, 2, 3, 4, 5::nat] \<and>
   columns (foldl appendColumn \<lparr>width = 3, columns = [0::nat]\<rparr> [1, 2, 3, 4, 5]) = [3, 4, 5]"
  using appendColumn_fifo[of "\<lparr>width = 3, columns = [0::nat]\<rparr>" "[1, 2, 3, 4, 5]"]
  by simp


end
